theory Spec2Isabelle
  imports Complex_Main
begin

section \<open>Shared data: chat messages, tool calls, usage (src/llm/client.ts)\<close>

datatype Role = System | User | Assistant | Tool

text \<open>
  \<open>ToolCall\<close> is \<open>{ id, type: 'function', function: { name, arguments } }\<close>; the constant
  \<open>type\<close> field carries no information and the nested \<open>function\<close> object is flattened.
\<close>

record ToolCall =
  tc_id :: string
  tc_name :: string
  tc_arguments :: string

record ChatMessage =
  role :: Role
  content :: string
  tool_calls :: "ToolCall list option"
  tool_call_id :: "string option"
  msg_name :: "string option"

record Usage =
  prompt_tokens :: nat
  completion_tokens :: nat
  total_tokens :: nat

definition mkMessage :: "Role \<Rightarrow> string \<Rightarrow> ChatMessage" where
  "mkMessage r c =
     \<lparr>role = r, content = c, tool_calls = None, tool_call_id = None, msg_name = None\<rparr>"

section \<open>Numbers in template strings\<close>

text \<open>
  A JavaScript template literal \<open>${n}\<close> prints an integer in decimal, with a leading
  minus sign when it is negative.
\<close>

definition digit_char :: "nat \<Rightarrow> char" where
  "digit_char d = ''0123456789'' ! d"

function show_nat :: "nat \<Rightarrow> string" where
  "show_nat n = (if n < 10 then [digit_char n] else show_nat (n div 10) @ [digit_char (n mod 10)])"
  by pat_completeness auto
termination
  by (relation "measure (\<lambda>n. n)") auto

declare show_nat.simps [simp del]


section \<open>The agent state machine (src/agent/fsm.ts)\<close>

datatype State =
    Idle
  | Streaming int
  | ExecutingTools "ToolCall list" nat
  | WaitingDelay int
  | WaitingStep

datatype Mode = Conversational | Autonomous

text \<open>\<open>delay: number | 'infinite'\<close>; the number is a count of seconds.\<close>

datatype Delay = Infinite | Seconds int

record Response =
  resp_content :: string
  resp_reasoning :: string

record Context =
  messages :: "ChatMessage list"
  mode :: Mode
  delay :: Delay
  queuedUserMessages :: "string list"
  consecutiveErrors :: nat
  turnNumber :: nat
  currentResponse :: Response

definition emptyResponse :: Response where
  "emptyResponse = \<lparr>resp_content = [], resp_reasoning = []\<rparr>"

definition createContext :: "ChatMessage list \<Rightarrow> Context" where
  "createContext initialMessages =
     \<lparr>messages = initialMessages, mode = Conversational, delay = Seconds 5,
      queuedUserMessages = [], consecutiveErrors = 0, turnNumber = 0,
      currentResponse = emptyResponse\<rparr>"

datatype Event =
    UserMessage string
  | ExternalMessage string string
  | AutonomousTick
  | StreamStart int
  | StreamChunk "string option" "string option"
  | StreamEnd ChatMessage "Usage option"
  | StreamError string
  | ToolResult string string
  | AllToolsComplete
  | ModeChanged Mode
  | DelayChanged Delay
  | Step
  | DelayElapsed

datatype Level = Normal | Soft | Hard | Overflow

text \<open>
  Effects. The optional \<open>toolName\<close>/\<open>toolInput\<close> of \<open>save_message\<close> and
  \<open>broadcast_message\<close> are kept as options; the state machine never sets them.
  A JavaScript \<open>number\<close> ratio is kept as an exact rational.
\<close>

datatype Effect =
    StartStream
  | EmitToken int string
  | EmitReasoning int string
  | ExecuteTool string string string
  | SaveMessage string string "string option" "string option"
  | BroadcastMessage string string "string option" "string option"
  | UpdateContextPressure nat nat rat Level
  | ScheduleDelay int
  | WaitForStep
  | CheckContextPressure
  | LogError string
  | BroadcastFsmState string nat

record TransitionResult =
  state :: State
  ctx :: Context
  effects :: "Effect list"

definition mkResult :: "State \<Rightarrow> Context \<Rightarrow> Effect list \<Rightarrow> TransitionResult" where
  "mkResult s c es = \<lparr>state = s, ctx = c, effects = es\<rparr>"

text \<open>The \<open>type\<close> tag of a state, as the string the source compares and broadcasts.\<close>

fun state_type :: "State \<Rightarrow> string" where
  "state_type Idle = ''idle''"
| "state_type (Streaming _) = ''streaming''"
| "state_type (ExecutingTools _ _) = ''executing_tools''"
| "state_type (WaitingDelay _) = ''waiting_delay''"
| "state_type WaitingStep = ''waiting_step''"

definition nudge :: string where
  "nudge = ''You are running in autonomous mode. Continue pursuing your own goals.'' @
           [CHR 0x0A, CHR 0x0A] @ ''What would you like to do next?''"

definition recoveryPrompt :: "string \<Rightarrow> string" where
  "recoveryPrompt err =
     ''[System: The previous response caused an error: '' @ [CHR 0x22] @ err @ [CHR 0x22] @
     ''. Please try again with a simpler approach.]''"

definition pauseNotice :: "nat \<Rightarrow> string" where
  "pauseNotice n =
     ''Too many consecutive errors ('' @ show_nat n @
     ''). Pausing. Send a message to resume.''"

text \<open>JavaScript truthiness of an optional string: present and non-empty.\<close>

fun truthy :: "string option \<Rightarrow> bool" where
  "truthy None = False"
| "truthy (Some s) = (s \<noteq> [])"

text \<open>
  The pressure level computed from the real prompt-token usage at \<open>stream_end\<close>:
  a fixed denominator of 128000 and three levels.
\<close>

definition usagePressure :: "Usage \<Rightarrow> Effect" where
  "usagePressure u =
     (let maxTokens = 128000 :: nat;
          ratio = (of_nat (prompt_tokens u) :: rat) / of_nat maxTokens;
          level = (if ratio \<ge> 9 / 10 then Hard else if ratio \<ge> 7 / 10 then Soft else Normal)
      in UpdateContextPressure (prompt_tokens u) maxTokens ratio level)"

text \<open>
  Call depth of the handlers, used only to show that the mutual recursion of
  \<open>transition\<close> and its handlers ends: a nested \<open>transition\<close> is always entered in
  \<open>idle\<close> with \<open>user_message\<close> or \<open>autonomous_tick\<close>, which recurse no further.
\<close>

definition idle_rank :: "Event \<Rightarrow> nat" where
  "idle_rank ev = (case ev of ModeChanged _ \<Rightarrow> 2 | _ \<Rightarrow> 0)"

fun handler_rank :: "State \<Rightarrow> Event \<Rightarrow> nat" where
  "handler_rank Idle ev = idle_rank ev"
| "handler_rank (Streaming _) ev = 4"
| "handler_rank (ExecutingTools _ _) ev = 0"
| "handler_rank (WaitingDelay _) ev = 2"
| "handler_rank WaitingStep ev = 2"

text \<open>
  The transition function and its handlers. Every function takes the value \<open>now\<close> that
  \<open>Date.now()\<close> returns during the call (each path reads the clock at most once).
  The \<open>effects\<close> array that the source threads through the handlers by reference is
  passed and returned; a nested call of \<open>transition\<close> starts from a fresh, empty array,
  as the source does. The \<open>default\<close> branch of \<open>handleIdle\<close> tests for a
  \<open>user_message\<close> once more; that event is taken by the first \<open>case\<close>, so the test
  never succeeds and the branch returns \<open>idle\<close> with the context unchanged.
\<close>

function
  transition :: "int \<Rightarrow> State \<Rightarrow> Context \<Rightarrow> Event \<Rightarrow> TransitionResult" and
  handleIdle :: "int \<Rightarrow> Context \<Rightarrow> Event \<Rightarrow> Effect list \<Rightarrow> TransitionResult" and
  handleStreaming :: "int \<Rightarrow> int \<Rightarrow> Context \<Rightarrow> Event \<Rightarrow> Effect list \<Rightarrow> TransitionResult" and
  handleExecutingTools ::
    "int \<Rightarrow> ToolCall list \<Rightarrow> nat \<Rightarrow> Context \<Rightarrow> Event \<Rightarrow> Effect list \<Rightarrow> TransitionResult" and
  handleWaitingDelay :: "int \<Rightarrow> int \<Rightarrow> Context \<Rightarrow> Event \<Rightarrow> Effect list \<Rightarrow> TransitionResult" and
  handleWaitingStep :: "int \<Rightarrow> Context \<Rightarrow> Event \<Rightarrow> Effect list \<Rightarrow> TransitionResult" and
  transitionToPostTurn :: "int \<Rightarrow> Context \<Rightarrow> Effect list \<Rightarrow> TransitionResult"
where
  "transition now st c ev =
     (let result =
        (case st of
           Idle \<Rightarrow> handleIdle now c ev []
         | Streaming sid \<Rightarrow> handleStreaming now sid c ev []
         | ExecutingTools tcs i \<Rightarrow> handleExecutingTools now tcs i c ev []
         | WaitingDelay d \<Rightarrow> handleWaitingDelay now d c ev []
         | WaitingStep \<Rightarrow> handleWaitingStep now c ev [])
      in if state_type (state result) \<noteq> state_type st
         then result\<lparr>effects := effects result @
                [BroadcastFsmState (state_type (state result)) (turnNumber (ctx result))]\<rparr>
         else result)"
| "handleIdle now c ev effs =
     (case ev of
        UserMessage txt \<Rightarrow>
          mkResult (Streaming now)
            (c\<lparr>messages := messages c @ [mkMessage User txt],
               consecutiveErrors := 0,
               turnNumber := turnNumber c + 1,
               currentResponse := emptyResponse\<rparr>)
            (effs @ [SaveMessage ''user'' txt None None,
                     BroadcastMessage ''user'' txt None None,
                     CheckContextPressure, StartStream])
      | ExternalMessage src txt \<Rightarrow>
          mkResult (Streaming now)
            (c\<lparr>messages := messages c @
                  [mkMessage User (''[External message from '' @ src @ '']'' @ [CHR 0x0A] @ txt)],
               consecutiveErrors := 0,
               turnNumber := turnNumber c + 1,
               currentResponse := emptyResponse\<rparr>)
            (effs @ [SaveMessage (''external:'' @ src) txt None None,
                     BroadcastMessage (''external:'' @ src) txt None None,
                     CheckContextPressure, StartStream])
      | AutonomousTick \<Rightarrow>
          if mode c \<noteq> Autonomous then mkResult Idle c effs
          else (case queuedUserMessages c of
                  txt # rest \<Rightarrow>
                    mkResult (Streaming now)
                      (c\<lparr>messages := messages c @ [mkMessage User txt],
                         queuedUserMessages := rest,
                         consecutiveErrors := 0,
                         turnNumber := turnNumber c + 1,
                         currentResponse := emptyResponse\<rparr>)
                      (effs @ [SaveMessage ''user'' txt None None,
                               BroadcastMessage ''user'' txt None None,
                               CheckContextPressure, StartStream])
                | [] \<Rightarrow>
                    mkResult (Streaming now)
                      (c\<lparr>messages := messages c @ [mkMessage User nudge],
                         turnNumber := turnNumber c + 1,
                         currentResponse := emptyResponse\<rparr>)
                      (effs @ [CheckContextPressure, StartStream]))
      | ModeChanged m \<Rightarrow>
          if m = Autonomous then transition now Idle (c\<lparr>mode := m\<rparr>) AutonomousTick
          else mkResult Idle (c\<lparr>mode := m\<rparr>) effs
      | DelayChanged d \<Rightarrow> mkResult Idle (c\<lparr>delay := d\<rparr>) effs
      | _ \<Rightarrow> mkResult Idle c effs)"
| "handleStreaming now sid c ev effs =
     (case ev of
        StreamChunk co re \<Rightarrow>
          (let r0 = currentResponse c;
               r1 = (if truthy co then r0\<lparr>resp_content := resp_content r0 @ the co\<rparr> else r0);
               e1 = (if truthy co then effs @ [EmitToken sid (the co)] else effs);
               r2 = (if truthy re then r1\<lparr>resp_reasoning := resp_reasoning r1 @ the re\<rparr> else r1);
               e2 = (if truthy re then e1 @ [EmitReasoning sid (the re)] else e1)
           in mkResult (Streaming sid) (c\<lparr>currentResponse := r2\<rparr>) e2)
      | StreamEnd msg usage \<Rightarrow>
          (let newContext = c\<lparr>messages := messages c @ [msg], consecutiveErrors := 0\<rparr>;
               reasoning = resp_reasoning (currentResponse c);
               e1 = (if reasoning \<noteq> []
                     then effs @ [SaveMessage ''reasoning'' reasoning None None,
                                  BroadcastMessage ''reasoning'' reasoning None None]
                     else effs);
               e2 = (if content msg \<noteq> []
                     then e1 @ [SaveMessage ''assistant'' (content msg) None None,
                                BroadcastMessage ''assistant'' (content msg) None None]
                     else e1);
               e3 = (case usage of Some u \<Rightarrow> e2 @ [usagePressure u] | None \<Rightarrow> e2)
           in case tool_calls msg of
                Some (t # ts) \<Rightarrow> mkResult (ExecutingTools (t # ts) 0) newContext e3
              | _ \<Rightarrow> transitionToPostTurn now newContext e3)
      | StreamError err \<Rightarrow>
          (let newConsecutiveErrors = consecutiveErrors c + 1;
               e1 = effs @ [LogError err,
                            SaveMessage ''system'' (''Error: '' @ err) None None,
                            BroadcastMessage ''system'' (''Error: '' @ err) None None]
           in if newConsecutiveErrors < 3
              then mkResult (Streaming now)
                     (c\<lparr>messages := messages c @ [mkMessage User (recoveryPrompt err)],
                        consecutiveErrors := newConsecutiveErrors,
                        currentResponse := emptyResponse\<rparr>)
                     (e1 @ [StartStream])
              else mkResult Idle (c\<lparr>consecutiveErrors := 0\<rparr>)
                     (e1 @ [SaveMessage ''system'' (pauseNotice newConsecutiveErrors) None None,
                            BroadcastMessage ''system'' (pauseNotice newConsecutiveErrors) None None]))
      | UserMessage txt \<Rightarrow>
          mkResult (Streaming sid) (c\<lparr>queuedUserMessages := queuedUserMessages c @ [txt]\<rparr>) effs
      | ModeChanged m \<Rightarrow> mkResult (Streaming sid) (c\<lparr>mode := m\<rparr>) effs
      | DelayChanged d \<Rightarrow> mkResult (Streaming sid) (c\<lparr>delay := d\<rparr>) effs
      | _ \<Rightarrow> mkResult (Streaming sid) c effs)"
| "handleExecutingTools now tcs i c ev effs =
     (case ev of
        ToolResult tcid res \<Rightarrow>
          (let newContext = c\<lparr>messages := messages c @
                 [\<lparr>role = Tool, content = res, tool_calls = None,
                   tool_call_id = Some tcid, msg_name = None\<rparr>]\<rparr>;
               nextIndex = i + 1
           in if nextIndex < length tcs
              then mkResult (ExecutingTools tcs nextIndex) newContext effs
              else mkResult (Streaming now) (newContext\<lparr>currentResponse := emptyResponse\<rparr>)
                     (effs @ [CheckContextPressure, StartStream]))
      | UserMessage txt \<Rightarrow>
          mkResult (ExecutingTools tcs i)
            (c\<lparr>queuedUserMessages := queuedUserMessages c @ [txt]\<rparr>) effs
      | ModeChanged m \<Rightarrow> mkResult (ExecutingTools tcs i) (c\<lparr>mode := m\<rparr>) effs
      | DelayChanged d \<Rightarrow> mkResult (ExecutingTools tcs i) (c\<lparr>delay := d\<rparr>) effs
      | _ \<Rightarrow> mkResult (ExecutingTools tcs i) c effs)"
| "handleWaitingDelay now dms c ev effs =
     (case ev of
        DelayElapsed \<Rightarrow> transition now Idle c AutonomousTick
      | UserMessage txt \<Rightarrow> transition now Idle c (UserMessage txt)
      | ModeChanged m \<Rightarrow>
          if m = Conversational then mkResult Idle (c\<lparr>mode := m\<rparr>) effs
          else mkResult (WaitingDelay dms) (c\<lparr>mode := m\<rparr>) effs
      | DelayChanged d \<Rightarrow> mkResult (WaitingDelay dms) (c\<lparr>delay := d\<rparr>) effs
      | _ \<Rightarrow> mkResult (WaitingDelay dms) c effs)"
| "handleWaitingStep now c ev effs =
     (case ev of
        Step \<Rightarrow> transition now Idle c AutonomousTick
      | UserMessage txt \<Rightarrow> transition now Idle c (UserMessage txt)
      | ModeChanged m \<Rightarrow>
          if m = Conversational then mkResult Idle (c\<lparr>mode := m\<rparr>) effs
          else mkResult WaitingStep (c\<lparr>mode := m\<rparr>) effs
      | DelayChanged d \<Rightarrow>
          (case d of
             Seconds n \<Rightarrow>
               mkResult (WaitingDelay (n * 1000)) (c\<lparr>delay := d\<rparr>)
                 (effs @ [ScheduleDelay (n * 1000)])
           | Infinite \<Rightarrow> mkResult WaitingStep (c\<lparr>delay := d\<rparr>) effs)
      | _ \<Rightarrow> mkResult WaitingStep c effs)"
| "transitionToPostTurn now c effs =
     (case queuedUserMessages c of
        txt # rest \<Rightarrow> transition now Idle (c\<lparr>queuedUserMessages := rest\<rparr>) (UserMessage txt)
      | [] \<Rightarrow>
          if mode c = Conversational then mkResult Idle c effs
          else (case delay c of
                  Infinite \<Rightarrow> mkResult WaitingStep c (effs @ [WaitForStep])
                | Seconds n \<Rightarrow>
                    if n > 0
                    then mkResult (WaitingDelay (n * 1000)) c (effs @ [ScheduleDelay (n * 1000)])
                    else transition now Idle c AutonomousTick))"
  by pat_completeness auto
termination
  apply (relation "measure (case_sum
      (case_sum (\<lambda>(now, st, c, ev). handler_rank st ev + 1)
         (case_sum (\<lambda>(now, c, ev, effs). idle_rank ev) (\<lambda>_. 4)))
      (case_sum (case_sum (\<lambda>_. 0) (\<lambda>_. 2)) (case_sum (\<lambda>_. 2) (\<lambda>_. 2))))")
  apply (simp_all add: idle_rank_def)
  done

declare transition.simps [simp del]
declare handleIdle.simps [simp del]
declare handleStreaming.simps [simp del]
declare handleExecutingTools.simps [simp del]
declare handleWaitingDelay.simps [simp del]
declare handleWaitingStep.simps [simp del]
declare transitionToPostTurn.simps [simp del]

section \<open>Context pressure and compaction (src/llm/context.ts)\<close>

text \<open>
  The ratio \<open>tokens / getContextSize()\<close> is a JavaScript number. Token counts and the
  context size are integers, so the quotient is kept as an exact rational; for sizes below
  \<open>10^15\<close> the double nearest to the quotient compares with the doubles \<open>0.7\<close>,
  \<open>0.9\<close> and \<open>1.1\<close> exactly as the rational compares with \<open>7/10\<close>, \<open>9/10\<close> and
  \<open>11/10\<close>. Division by a context size of 0 gives \<open>Infinity\<close>, or \<open>NaN\<close> for \<open>0 / 0\<close>;
  every comparison with \<open>NaN\<close> is false.
\<close>

datatype Ratio = Finite rat | Infinity | NaN

definition js_div :: "nat \<Rightarrow> nat \<Rightarrow> Ratio" where
  "js_div a b =
     (if b = 0 then (if a = 0 then NaN else Infinity)
      else Finite (of_nat a / of_nat b))"

fun ratio_ge :: "Ratio \<Rightarrow> rat \<Rightarrow> bool" where
  "ratio_ge (Finite r) l = (r \<ge> l)"
| "ratio_ge Infinity l = True"
| "ratio_ge NaN l = False"

definition SOFT_LIMIT_RATIO :: rat where
  "SOFT_LIMIT_RATIO = 7 / 10"

definition HARD_LIMIT_RATIO :: rat where
  "HARD_LIMIT_RATIO = 9 / 10"

definition OVERFLOW_LIMIT_RATIO :: rat where
  "OVERFLOW_LIMIT_RATIO = 11 / 10"

definition estimateTokens :: "string \<Rightarrow> nat" where
  "estimateTokens text = nat \<lceil>(of_nat (length text) :: rat) / 4\<rceil>"

definition estimateMessageTokens :: "ChatMessage \<Rightarrow> nat" where
  "estimateMessageTokens message =
     (let tokens = estimateTokens (content message);
          tokens' = (case tool_calls message of
                       Some tcs \<Rightarrow>
                         fold (\<lambda>tc acc. acc + estimateTokens (tc_name tc)
                                         + estimateTokens (tc_arguments tc)) tcs tokens
                     | None \<Rightarrow> tokens)
      in tokens' + 4)"

definition estimateTotalTokens :: "ChatMessage list \<Rightarrow> nat" where
  "estimateTotalTokens msgs = fold (\<lambda>m sum. sum + estimateMessageTokens m) msgs 0"

record Pressure =
  p_tokens :: nat
  p_ratio :: Ratio
  p_level :: Level

text \<open>\<open>contextSize\<close> is \<open>config.contextSize\<close>, the value \<open>getContextSize()\<close> returns.\<close>

definition getContextPressure :: "nat \<Rightarrow> ChatMessage list \<Rightarrow> Pressure" where
  "getContextPressure contextSize msgs =
     (let tokens = estimateTotalTokens msgs;
          ratio = js_div tokens contextSize;
          level = (if ratio_ge ratio OVERFLOW_LIMIT_RATIO then Overflow
                   else if ratio_ge ratio HARD_LIMIT_RATIO then Hard
                   else if ratio_ge ratio SOFT_LIMIT_RATIO then Soft
                   else Normal)
      in \<lparr>p_tokens = tokens, p_ratio = ratio, p_level = level\<rparr>)"

definition summarizeMessage :: "ChatMessage \<Rightarrow> ChatMessage" where
  "summarizeMessage message =
     (if role message = Tool \<and> length (content message) > 500
      then message\<lparr>content :=
             ''[Summarized tool result: '' @ take 200 (content message) @ ''... ('' @
             show_nat (length (content message)) @ '' chars total)]''\<rparr>
      else message)"

text \<open>
  The loop of \<open>compactMessages\<close> runs over the indices and pushes one element per index;
  its guard \<open>if (!msg) continue\<close> never fires on an array of message objects. The bound
  \<open>messages.length - 10\<close> may be negative, so it is computed over the integers.
\<close>

definition compactMessages :: "ChatMessage list \<Rightarrow> ChatMessage list" where
  "compactMessages msgs =
     map (\<lambda>i. if int i < int (length msgs) - 10 then summarizeMessage (msgs ! i) else msgs ! i)
       [0..<length msgs]"

definition createHandoffSummary :: "ChatMessage list \<Rightarrow> string" where
  "createHandoffSummary msgs =
     ''Session Summary:'' @ [CHR 0x0A] @
     ''- Total messages: '' @ show_nat (length msgs) @ [CHR 0x0A] @
     ''- Assistant turns: '' @ show_nat (length (filter (\<lambda>m. role m = Assistant) msgs)) @
       [CHR 0x0A] @
     ''- Tool uses: '' @ show_nat (length (filter (\<lambda>m. role m = Tool) msgs)) @
       [CHR 0x0A, CHR 0x0A] @
     ''Recent context: The agent was engaged in conversation and tool use.''"

definition formatSessionHandoff :: "string \<Rightarrow> string" where
  "formatSessionHandoff summary =
     ''[Session Handoff]'' @ [CHR 0x0A] @
     ''This is a continuation of a previous session. Here'' @ [CHR 0x27] @
     ''s the context from before:'' @ [CHR 0x0A, CHR 0x0A] @ summary @ [CHR 0x0A, CHR 0x0A] @
     ''You may continue from where you left off or start fresh.''"

section \<open>The store (src/db/messages.ts)\<close>

record Message =
  m_id :: nat
  m_source :: string
  m_content :: string
  m_tool_name :: "string option"
  m_tool_input :: "string option"
  m_timestamp :: nat
  m_metadata :: "string option"

datatype TaskStatus = Running | Completed | Failed

record BackgroundTask =
  t_id :: string
  t_tool_name :: string
  t_input :: string
  t_status :: TaskStatus
  t_result :: "string option"
  t_error :: "string option"
  t_created_at :: nat
  t_completed_at :: "nat option"

record Session =
  s_id :: nat
  s_started_at :: nat
  s_handoff_summary :: "string option"
  s_ended_at :: "nat option"

text \<open>
  The tables: \<open>messages\<close> and \<open>sessions\<close> in insertion order, \<open>background_tasks\<close> keyed
  by its primary key \<open>id\<close>.
\<close>

record Store =
  db_messages :: "Message list"
  db_sessions :: "Session list"
  db_tasks :: "string \<rightharpoonup> BackgroundTask"

text \<open>\<open>INTEGER PRIMARY KEY AUTOINCREMENT\<close>: one more than the largest id used so far.\<close>

definition next_rowid :: "nat list \<Rightarrow> nat" where
  "next_rowid ids = Suc (fold max ids 0)"

text \<open>
  \<open>addMessage\<close> takes the reading \<open>now\<close> of \<open>Date.now()\<close>; it returns the inserted
  row and the store.
\<close>

definition addMessage ::
  "nat \<Rightarrow> string \<Rightarrow> string \<Rightarrow> string option \<Rightarrow> string option \<Rightarrow> Store \<Rightarrow> Message \<times> Store" where
  "addMessage now source txt toolName toolInput db =
     (let row = \<lparr>m_id = next_rowid (map m_id (db_messages db)), m_source = source,
                 m_content = txt, m_tool_name = toolName, m_tool_input = toolInput,
                 m_timestamp = now, m_metadata = None\<rparr>
      in (row, db\<lparr>db_messages := db_messages db @ [row]\<rparr>))"

datatype StoreError = ConstraintViolation

text \<open>
  \<open>createBackgroundTask\<close> takes the identifier that \<open>crypto.randomUUID()\<close> draws and the
  JSON text of the input; inserting an existing primary key is a constraint error.
\<close>

definition createBackgroundTask ::
  "string \<Rightarrow> nat \<Rightarrow> string \<Rightarrow> string \<Rightarrow> Store \<Rightarrow> StoreError + (string \<times> Store)" where
  "createBackgroundTask uuid now toolName input db =
     (case db_tasks db uuid of
        Some _ \<Rightarrow> Inl ConstraintViolation
      | None \<Rightarrow>
          Inr (uuid, db\<lparr>db_tasks := (db_tasks db)(uuid \<mapsto>
                 \<lparr>t_id = uuid, t_tool_name = toolName, t_input = input, t_status = Running,
                  t_result = None, t_error = None, t_created_at = now,
                  t_completed_at = None\<rparr>)\<rparr>))"

text \<open>
  The prepared statement
  \<open>UPDATE background_tasks SET status = ?, result = ?, error = ?, completed_at = ? WHERE id = ?\<close>.
\<close>

definition updateBackgroundTask ::
  "TaskStatus \<Rightarrow> string option \<Rightarrow> string option \<Rightarrow> nat \<Rightarrow> string \<Rightarrow> Store \<Rightarrow> Store" where
  "updateBackgroundTask st res err completedAt tid db =
     (case db_tasks db tid of
        None \<Rightarrow> db
      | Some task \<Rightarrow>
          db\<lparr>db_tasks := (db_tasks db)(tid \<mapsto>
               task\<lparr>t_status := st, t_result := res, t_error := err,
                    t_completed_at := Some completedAt\<rparr>)\<rparr>)"

definition completeBackgroundTask :: "nat \<Rightarrow> string \<Rightarrow> string \<Rightarrow> Store \<Rightarrow> Store" where
  "completeBackgroundTask now tid res db =
     updateBackgroundTask Completed (Some res) None now tid db"

definition failBackgroundTask :: "nat \<Rightarrow> string \<Rightarrow> string \<Rightarrow> Store \<Rightarrow> Store" where
  "failBackgroundTask now tid err db =
     updateBackgroundTask Failed None (Some err) now tid db"

definition getBackgroundTask :: "string \<Rightarrow> Store \<Rightarrow> BackgroundTask option" where
  "getBackgroundTask tid db = db_tasks db tid"

definition startSession :: "nat \<Rightarrow> string option \<Rightarrow> Store \<Rightarrow> Session \<times> Store" where
  "startSession now handoffSummary db =
     (let row = \<lparr>s_id = next_rowid (map s_id (db_sessions db)), s_started_at = now,
                 s_handoff_summary = handoffSummary, s_ended_at = None\<rparr>
      in (row, db\<lparr>db_sessions := db_sessions db @ [row]\<rparr>))"

text \<open>\<open>SELECT * FROM sessions WHERE ended_at IS NULL ORDER BY id DESC LIMIT 1\<close>.\<close>

definition getCurrentSession :: "Store \<Rightarrow> Session option" where
  "getCurrentSession db =
     (case filter (\<lambda>s. s_ended_at s = None) (db_sessions db) of
        [] \<Rightarrow> None
      | s # ss \<Rightarrow> Some (fold (\<lambda>x best. if s_id x > s_id best then x else best) ss s))"

definition endCurrentSession :: "nat \<Rightarrow> Store \<Rightarrow> Store" where
  "endCurrentSession now db =
     (case getCurrentSession db of
        None \<Rightarrow> db
      | Some current \<Rightarrow>
          db\<lparr>db_sessions :=
               map (\<lambda>s. if s_id s = s_id current then s\<lparr>s_ended_at := Some now\<rparr> else s)
                 (db_sessions db)\<rparr>)"

section \<open>The effect executor's context-pressure handling (src/agent/session.ts)\<close>

datatype Broadcast =
    BroadcastMsg Message
  | BroadcastContextPressure nat nat Ratio Level

datatype TimerAction = PerformCompaction

text \<open>
  The part of the executor's closure that \<open>checkAndHandleContextPressure\<close> and
  \<open>performCompaction\<close> touch: the state machine's context (whose \<open>messages\<close> are the
  working window), the store, the payloads handed to the broadcast functions, and the
  timers registered with \<open>setTimeout\<close> as pairs of a delay in milliseconds and an action.
\<close>

record Executor =
  ex_context :: Context
  ex_store :: Store
  ex_outbox :: "Broadcast list"
  ex_timers :: "(nat \<times> TimerAction) list"

definition warningContent :: string where
  "warningContent =
     ''[System Notice] Context pressure is becoming critical. You should persist any '' @
     ''important information now using your tools (filesystem, notable) before context '' @
     ''compaction occurs.''"

text \<open>
  In the soft branch the source builds \<open>[messages[0], ...compactMessages(messages.slice(1))]\<close>.
  An empty window has 0 estimated tokens and so is never at the soft level; the model
  leaves it as it is.
\<close>

definition checkAndHandleContextPressure :: "nat \<Rightarrow> nat \<Rightarrow> Executor \<Rightarrow> Executor" where
  "checkAndHandleContextPressure contextSize now ex =
     (let pressure = getContextPressure contextSize (messages (ex_context ex));
          ex1 = ex\<lparr>ex_outbox := ex_outbox ex @
                  [BroadcastContextPressure (p_tokens pressure) contextSize
                     (p_ratio pressure) (p_level pressure)]\<rparr>
      in if p_level pressure = Hard
         then (let (warningMsg, db) = addMessage now ''system'' warningContent None None
                                        (ex_store ex1)
               in ex1\<lparr>ex_store := db,
                      ex_outbox := ex_outbox ex1 @ [BroadcastMsg warningMsg],
                      ex_context := (ex_context ex1)\<lparr>messages :=
                         messages (ex_context ex1) @ [mkMessage System warningContent]\<rparr>,
                      ex_timers := ex_timers ex1 @ [(5000, PerformCompaction)]\<rparr>)
         else if p_level pressure = Soft
         then (case messages (ex_context ex1) of
                 [] \<Rightarrow> ex1
               | m # rest \<Rightarrow>
                   ex1\<lparr>ex_context := (ex_context ex1)\<lparr>messages := m # compactMessages rest\<rparr>\<rparr>)
         else ex1)"

text \<open>
  \<open>performCompaction\<close> takes the system prompt that \<open>getSystemPrompt()\<close> returns and the
  three clock readings of \<open>endCurrentSession\<close>, \<open>startSession\<close> and \<open>addMessage\<close>.
\<close>

definition performCompaction :: "string \<Rightarrow> nat \<Rightarrow> nat \<Rightarrow> nat \<Rightarrow> Executor \<Rightarrow> Executor" where
  "performCompaction systemPrompt tEnd tStart tMsg ex =
     (let summary = createHandoffSummary (messages (ex_context ex));
          db1 = endCurrentSession tEnd (ex_store ex);
          (newSession, db2) = startSession tStart (Some summary) db1;
          (dividerMsg, db3) =
             addMessage tMsg ''system'' (''--- Session '' @ show_nat (s_id newSession) @ '' ---'')
               None None db2
      in ex\<lparr>ex_context := (ex_context ex)\<lparr>messages :=
                [mkMessage System systemPrompt,
                 mkMessage System (formatSessionHandoff summary)]\<rparr>,
             ex_store := db3,
             ex_outbox := ex_outbox ex @ [BroadcastMsg dividerMsg]\<rparr>)"

section \<open>External injection (src/server/routes.ts)\<close>

text \<open>
  The parsed body of the request; a missing field is \<open>None\<close>. A body that does not parse
  as JSON is \<open>None\<close> as a whole.
\<close>

record InjectRequest =
  req_source :: "string option"
  req_content :: "string option"

datatype HttpResponse =
    JsonSuccess Message
  | JsonError nat string

definition startsWith :: "string \<Rightarrow> string \<Rightarrow> bool" where
  "startsWith s p = (take (length p) s = p)"

definition handleInject ::
  "nat \<Rightarrow> InjectRequest option \<Rightarrow> Store \<Rightarrow> Broadcast list \<Rightarrow>
   HttpResponse \<times> Store \<times> Broadcast list" where
  "handleInject now req db out =
     (case req of
        None \<Rightarrow> (JsonError 400 ''Invalid JSON body'', db, out)
      | Some body \<Rightarrow>
          if \<not> truthy (req_source body) \<or> \<not> truthy (req_content body)
          then (JsonError 400 ''Missing source or content'', db, out)
          else if \<not> startsWith (the (req_source body)) ''external:''
          then (JsonError 400
                  (''Source must start with '' @ [CHR 0x22] @ ''external:'' @ [CHR 0x22]),
                db, out)
          else (let (message, db') =
                      addMessage now (the (req_source body)) (the (req_content body))
                        None None db
                in (JsonSuccess message, db', out @ [BroadcastMsg message])))"

text \<open>
  The pattern of the specification, \<open>^external:[^\s]+$\<close>: the prefix \<open>external:\<close>
  followed by one or more characters, none of them white space. This definition follows
  the specification's words, to be compared with the check the handler makes. The white
  space of \<open>\s\<close> is taken over the 8-bit characters: tab, line feed, vertical tab, form
  feed, carriage return, space and no-break space.
\<close>

definition is_whitespace :: "char \<Rightarrow> bool" where
  "is_whitespace ch = (of_char ch \<in> {9, 10, 11, 12, 13, 32, 160 :: nat})"

definition matches_external_pattern :: "string \<Rightarrow> bool" where
  "matches_external_pattern s =
     (startsWith s ''external:'' \<and> drop 9 s \<noteq> [] \<and>
      list_all (\<lambda>ch. \<not> is_whitespace ch) (drop 9 s))"

section \<open>The sleep tool (src/agent/tools/sleep.ts)\<close>

text \<open>
  The numbers of the sleep tool are JavaScript numbers: a finite double, taken as the
  rational it denotes, or one of the two infinities. \<open>NaN\<close> is not among them: a
  \<open>NaN\<close> duration is rejected as missing, and none of the operations below produces one
  from these values.
\<close>

datatype JsNumber = Num rat | PosInfinity | NegInfinity

fun num_less :: "JsNumber \<Rightarrow> JsNumber \<Rightarrow> bool" where
  "num_less (Num x) (Num y) = (x < y)"
| "num_less (Num x) PosInfinity = True"
| "num_less (Num x) NegInfinity = False"
| "num_less PosInfinity b = False"
| "num_less NegInfinity NegInfinity = False"
| "num_less NegInfinity b = True"

text \<open>\<open>Math.min\<close> and \<open>Math.floor\<close> are exact.\<close>

definition js_min :: "JsNumber \<Rightarrow> JsNumber \<Rightarrow> JsNumber" where
  "js_min a b = (if num_less b a then b else a)"




text \<open>
  \<open>totalMs - elapsed\<close>, with \<open>elapsed\<close> a whole number of milliseconds below
  \<open>totalMs\<close>: the difference of two doubles of which the smaller is a whole number is a
  double, so nothing is rounded.
\<close>

fun js_minus :: "JsNumber \<Rightarrow> int \<Rightarrow> JsNumber" where
  "js_minus (Num x) e = Num (x - of_int e)"
| "js_minus PosInfinity e = PosInfinity"
| "js_minus NegInfinity e = NegInfinity"







text \<open>
  The clock. \<open>elapsed\<close> is \<open>Date.now() - startTime\<close>, a whole number of milliseconds.
  \<open>Bun.sleep(d)\<close> returns no earlier than \<open>d\<close> milliseconds later, so the next reading
  is at least \<open>\<lfloor>d\<rfloor>\<close> above the last. Rounds of the loop in which the reading has
  not moved repeat the same test and the same poll, and are left out: the next reading is
  at least 1 above the last. By how much more the reading has moved is \<open>late\<close>, a
  function of the reading at which the sleep began.
\<close>

fun clock_advance :: "JsNumber \<Rightarrow> int" where
  "clock_advance (Num d) = max 1 \<lfloor>d\<rfloor>"
| "clock_advance PosInfinity = 1"
| "clock_advance NegInfinity = 1"



section \<open>Facts about the state machine\<close>


lemma idle_user_message:
  "transition now Idle c (UserMessage txt) =
     \<lparr>state = Streaming now,
      ctx = c\<lparr>messages := messages c @ [mkMessage User txt], consecutiveErrors := 0,
               turnNumber := turnNumber c + 1, currentResponse := emptyResponse\<rparr>,
      effects = [SaveMessage ''user'' txt None None, BroadcastMessage ''user'' txt None None,
                 CheckContextPressure, StartStream,
                 BroadcastFsmState ''streaming'' (turnNumber c + 1)]\<rparr>"
  by (simp add: transition.simps handleIdle.simps mkResult_def)

lemma idle_autonomous_tick:
  "transition now Idle c AutonomousTick =
     (if mode c \<noteq> Autonomous then \<lparr>state = Idle, ctx = c, effects = []\<rparr>
      else case queuedUserMessages c of
        txt # rest \<Rightarrow>
          \<lparr>state = Streaming now,
           ctx = c\<lparr>messages := messages c @ [mkMessage User txt], queuedUserMessages := rest,
                    consecutiveErrors := 0,
                    turnNumber := turnNumber c + 1, currentResponse := emptyResponse\<rparr>,
           effects = [SaveMessage ''user'' txt None None, BroadcastMessage ''user'' txt None None,
                 CheckContextPressure, StartStream,
                 BroadcastFsmState ''streaming'' (turnNumber c + 1)]\<rparr>
      | [] \<Rightarrow>
          \<lparr>state = Streaming now,
           ctx = c\<lparr>messages := messages c @ [mkMessage User nudge],
                    turnNumber := turnNumber c + 1, currentResponse := emptyResponse\<rparr>,
           effects = [CheckContextPressure, StartStream,
                 BroadcastFsmState ''streaming'' (turnNumber c + 1)]\<rparr>)"
  by (simp add: transition.simps handleIdle.simps mkResult_def split: list.split)

lemma post_turn_cases:
  "transitionToPostTurn now c effs =
     (case queuedUserMessages c of
        txt # rest \<Rightarrow> transition now Idle (c\<lparr>queuedUserMessages := rest\<rparr>) (UserMessage txt)
      | [] \<Rightarrow>
          if mode c = Conversational then \<lparr>state = Idle, ctx = c, effects = effs\<rparr>
          else (case delay c of
                  Infinite \<Rightarrow> \<lparr>state = WaitingStep, ctx = c, effects = effs @ [WaitForStep]\<rparr>
                | Seconds n \<Rightarrow>
                    if n > 0
                    then \<lparr>state = WaitingDelay (n * 1000), ctx = c,
                          effects = effs @ [ScheduleDelay (n * 1000)]\<rparr>
                    else transition now Idle c AutonomousTick))"
  by (simp add: transitionToPostTurn.simps mkResult_def split: list.split Delay.split)

lemma post_turn_counter:
  "consecutiveErrors c = 0 \<Longrightarrow> consecutiveErrors (ctx (transitionToPostTurn now c effs)) = 0"
  by (simp add: post_turn_cases idle_user_message idle_autonomous_tick
      split: list.split Delay.split)

lemma stream_error_step:
  "transition now (Streaming sid) c (StreamError err) =
     (if consecutiveErrors c + 1 < 3
      then \<lparr>state = Streaming now,
            ctx = c\<lparr>messages := messages c @ [mkMessage User (recoveryPrompt err)],
                     consecutiveErrors := consecutiveErrors c + 1,
                     currentResponse := emptyResponse\<rparr>,
            effects = [LogError err,
                       SaveMessage ''system'' (''Error: '' @ err) None None,
                       BroadcastMessage ''system'' (''Error: '' @ err) None None,
                       StartStream]\<rparr>
      else \<lparr>state = Idle, ctx = c\<lparr>consecutiveErrors := 0\<rparr>,
            effects = [LogError err,
                       SaveMessage ''system'' (''Error: '' @ err) None None,
                       BroadcastMessage ''system'' (''Error: '' @ err) None None,
                       SaveMessage ''system'' (pauseNotice (consecutiveErrors c + 1)) None None,
                       BroadcastMessage ''system'' (pauseNotice (consecutiveErrors c + 1)) None None,
                       BroadcastFsmState ''idle'' (turnNumber c)]\<rparr>)"
  by (simp add: transition.simps handleStreaming.simps mkResult_def Let_def)

lemma stream_end_counter:
  "consecutiveErrors (ctx (transition now (Streaming sid) c (StreamEnd msg usage))) = 0"
  by (simp add: transition.simps handleStreaming.simps mkResult_def Let_def post_turn_counter
      split: option.split list.split)

lemma show_nat_3: "show_nat 3 = ''3''"
  by (simp add: show_nat.simps digit_char_def)

lemma stream_end_no_tools:
  assumes "tool_calls msg = None \<or> tool_calls msg = Some []"
  shows "transition now (Streaming sid) c (StreamEnd msg usage) =
     (let r = transitionToPostTurn now
                (c\<lparr>messages := messages c @ [msg], consecutiveErrors := 0\<rparr>)
                ((if resp_reasoning (currentResponse c) \<noteq> []
                  then [SaveMessage ''reasoning'' (resp_reasoning (currentResponse c)) None None,
                        BroadcastMessage ''reasoning'' (resp_reasoning (currentResponse c)) None None]
                  else []) @
                 (if content msg \<noteq> []
                  then [SaveMessage ''assistant'' (content msg) None None,
                        BroadcastMessage ''assistant'' (content msg) None None]
                  else []) @
                 (case usage of Some u \<Rightarrow> [usagePressure u] | None \<Rightarrow> []))
      in if state_type (state r) \<noteq> ''streaming''
         then r\<lparr>effects := effects r @
                 [BroadcastFsmState (state_type (state r)) (turnNumber (ctx r))]\<rparr>
         else r)"
proof -
  have tp: "handleStreaming now sid c (StreamEnd msg usage) [] =
      transitionToPostTurn now
                (c\<lparr>messages := messages c @ [msg], consecutiveErrors := 0\<rparr>)
                ((if resp_reasoning (currentResponse c) \<noteq> []
                  then [SaveMessage ''reasoning'' (resp_reasoning (currentResponse c)) None None,
                        BroadcastMessage ''reasoning'' (resp_reasoning (currentResponse c)) None None]
                  else []) @
                 (if content msg \<noteq> []
                  then [SaveMessage ''assistant'' (content msg) None None,
                        BroadcastMessage ''assistant'' (content msg) None None]
                  else []) @
                 (case usage of Some u \<Rightarrow> [usagePressure u] | None \<Rightarrow> []))"
    using assms
    by (elim disjE) (simp_all add: handleStreaming.simps Let_def split: option.split)
  show ?thesis
    by (simp only: transition.simps [of now "Streaming sid"] State.case tp state_type.simps)
qed

lemma busy_user_message:
  "transition now (Streaming sid) c (UserMessage q) =
     \<lparr>state = Streaming sid, ctx = c\<lparr>queuedUserMessages := queuedUserMessages c @ [q]\<rparr>,
      effects = []\<rparr>"
  "transition now (ExecutingTools tcs i) c (UserMessage q) =
     \<lparr>state = ExecutingTools tcs i, ctx = c\<lparr>queuedUserMessages := queuedUserMessages c @ [q]\<rparr>,
      effects = []\<rparr>"
  by (simp_all add: transition.simps handleStreaming.simps handleExecutingTools.simps mkResult_def)

lemma waiting_user_message:
  "transition now (WaitingDelay d) c (UserMessage q) =
     (let r = transition now Idle c (UserMessage q)
      in r\<lparr>effects := effects r @ [BroadcastFsmState ''streaming'' (turnNumber c + 1)]\<rparr>)"
  "transition now WaitingStep c (UserMessage q) =
     (let r = transition now Idle c (UserMessage q)
      in r\<lparr>effects := effects r @ [BroadcastFsmState ''streaming'' (turnNumber c + 1)]\<rparr>)"
  by (simp_all add: transition.simps [of now "WaitingDelay d"] transition.simps [of now WaitingStep]
      handleWaitingDelay.simps handleWaitingStep.simps idle_user_message)

text \<open>
  The clock reading reaches the result in one place only: the \<open>streamId\<close> of a state
  \<open>streaming\<close> that the transition enters. Context and effects do not depend on it.
\<close>

lemma idle_clock:
  "ctx (handleIdle n1 c ev es) = ctx (handleIdle n2 c ev es) \<and>
   effects (handleIdle n1 c ev es) = effects (handleIdle n2 c ev es) \<and>
   (state (handleIdle n1 c ev es) = state (handleIdle n2 c ev es) \<or>
    state (handleIdle n1 c ev es) = Streaming n1 \<and> state (handleIdle n2 c ev es) = Streaming n2)"
  by (cases ev)
     (simp_all add: handleIdle.simps idle_autonomous_tick mkResult_def split: list.split)

lemma transition_idle_clock:
  "ctx (transition n1 Idle c ev) = ctx (transition n2 Idle c ev) \<and>
   effects (transition n1 Idle c ev) = effects (transition n2 Idle c ev) \<and>
   (state (transition n1 Idle c ev) = state (transition n2 Idle c ev) \<or>
    state (transition n1 Idle c ev) = Streaming n1 \<and> state (transition n2 Idle c ev) = Streaming n2)"
  using idle_clock [of n1 c ev "[]" n2]
  by (auto simp add: transition.simps [of _ Idle] Let_def)

lemma post_turn_clock:
  "ctx (transitionToPostTurn n1 c es) = ctx (transitionToPostTurn n2 c es) \<and>
   effects (transitionToPostTurn n1 c es) = effects (transitionToPostTurn n2 c es) \<and>
   (state (transitionToPostTurn n1 c es) = state (transitionToPostTurn n2 c es) \<or>
    state (transitionToPostTurn n1 c es) = Streaming n1 \<and>
    state (transitionToPostTurn n2 c es) = Streaming n2)"
  by (simp add: post_turn_cases idle_user_message idle_autonomous_tick
      split: list.split Delay.split)

lemma streaming_clock:
  "ctx (handleStreaming n1 sid c ev es) = ctx (handleStreaming n2 sid c ev es) \<and>
   effects (handleStreaming n1 sid c ev es) = effects (handleStreaming n2 sid c ev es) \<and>
   (state (handleStreaming n1 sid c ev es) = state (handleStreaming n2 sid c ev es) \<or>
    state (handleStreaming n1 sid c ev es) = Streaming n1 \<and>
    state (handleStreaming n2 sid c ev es) = Streaming n2)"
proof (cases ev)
  case (StreamEnd msg usage)
  then show ?thesis
    using post_turn_clock
    by (simp add: handleStreaming.simps mkResult_def Let_def split: option.split list.split)
qed (simp_all add: handleStreaming.simps mkResult_def Let_def)


lemma executing_clock:
  "ctx (handleExecutingTools n1 tcs i c ev es) = ctx (handleExecutingTools n2 tcs i c ev es) \<and>
   effects (handleExecutingTools n1 tcs i c ev es) =
     effects (handleExecutingTools n2 tcs i c ev es) \<and>
   (state (handleExecutingTools n1 tcs i c ev es) = state (handleExecutingTools n2 tcs i c ev es) \<or>
    state (handleExecutingTools n1 tcs i c ev es) = Streaming n1 \<and>
    state (handleExecutingTools n2 tcs i c ev es) = Streaming n2)"
  by (cases ev) (simp_all add: handleExecutingTools.simps mkResult_def Let_def)

lemma waiting_delay_clock:
  "ctx (handleWaitingDelay n1 d c ev es) = ctx (handleWaitingDelay n2 d c ev es) \<and>
   effects (handleWaitingDelay n1 d c ev es) = effects (handleWaitingDelay n2 d c ev es) \<and>
   (state (handleWaitingDelay n1 d c ev es) = state (handleWaitingDelay n2 d c ev es) \<or>
    state (handleWaitingDelay n1 d c ev es) = Streaming n1 \<and>
    state (handleWaitingDelay n2 d c ev es) = Streaming n2)"
  by (cases ev)
     (simp_all add: handleWaitingDelay.simps mkResult_def idle_user_message idle_autonomous_tick
        split: list.split)

lemma waiting_step_clock:
  "ctx (handleWaitingStep n1 c ev es) = ctx (handleWaitingStep n2 c ev es) \<and>
   effects (handleWaitingStep n1 c ev es) = effects (handleWaitingStep n2 c ev es) \<and>
   (state (handleWaitingStep n1 c ev es) = state (handleWaitingStep n2 c ev es) \<or>
    state (handleWaitingStep n1 c ev es) = Streaming n1 \<and>
    state (handleWaitingStep n2 c ev es) = Streaming n2)"
  by (cases ev)
     (simp_all add: handleWaitingStep.simps mkResult_def idle_user_message idle_autonomous_tick
        split: list.split Delay.split)

lemma transition_clock:
  "ctx (transition n1 st c ev) = ctx (transition n2 st c ev) \<and>
   effects (transition n1 st c ev) = effects (transition n2 st c ev) \<and>
   (state (transition n1 st c ev) = state (transition n2 st c ev) \<or>
    state (transition n1 st c ev) = Streaming n1 \<and> state (transition n2 st c ev) = Streaming n2)"
proof (cases st)
  case Idle
  then show ?thesis using transition_idle_clock by simp
next
  case (Streaming sid)
  then show ?thesis
    using streaming_clock [of n1 sid c ev "[]" n2]
    by (auto simp add: transition.simps [of _ "Streaming sid"] Let_def)
next
  case (ExecutingTools tcs i)
  then show ?thesis
    using executing_clock [of n1 tcs i c ev "[]" n2]
    by (auto simp add: transition.simps [of _ "ExecutingTools tcs i"] Let_def)
next
  case (WaitingDelay d)
  then show ?thesis
    using waiting_delay_clock [of n1 d c ev "[]" n2]
    by (auto simp add: transition.simps [of _ "WaitingDelay d"] Let_def)
next
  case WaitingStep
  then show ?thesis
    using waiting_step_clock [of n1 c ev "[]" n2]
    by (auto simp add: transition.simps [of _ WaitingStep] Let_def)
qed

section \<open>Claims about the state machine\<close>

text \<open>
  C1 (purity of \<open>transition\<close>). The source heads the function "Pure FSM Transition
  Function", and the claim asks that two calls with equal \<open>(state, context, event)\<close>
  return equal results. The function reads the wall clock: every transition that enters
  \<open>streaming\<close> stores \<open>Date.now()\<close> as the new \<open>streamId\<close>. Evaluated at the
  same idle state, the same fresh context and the same user message, but at two different
  clock readings, the results differ in their state.
\<close>

theorem transition_reads_clock:
  "state (transition 1000 Idle (createContext []) (UserMessage ''hi'')) = Streaming 1000 \<and>
   state (transition 2000 Idle (createContext []) (UserMessage ''hi'')) = Streaming 2000 \<and>
   transition 1000 Idle (createContext []) (UserMessage ''hi'') \<noteq>
   transition 2000 Idle (createContext []) (UserMessage ''hi'')"
  by (simp add: idle_user_message)

text \<open>
  C6 (retry ladder). In \<open>streaming\<close>, a \<open>stream_error\<close> logs the error and emits the
  save and broadcast effects of a \<open>system\<close> message \<open>Error: e\<close>. While the incremented
  counter is below 3 the user message
  \<open>[System: The previous response caused an error: "e". Please try again with a simpler approach.]\<close>
  is appended to the window, the incremented counter is stored, the response accumulator
  is emptied and \<open>start_stream\<close> is emitted again; otherwise the notice
  \<open>Too many consecutive errors (n). Pausing. Send a message to resume.\<close> is saved and
  broadcast, the counter is reset to 0 and the machine returns to \<open>idle\<close>. A
  \<open>stream_end\<close> always leaves the counter at 0. Starting from a counter of 0, three
  consecutive errors give two retries, each with its recovery prompt in the window, and
  then the pause.
\<close>

theorem stream_error_retry_ladder:
  "(consecutiveErrors c + 1 < 3 \<longrightarrow>
      transition now (Streaming sid) c (StreamError err) =
        \<lparr>state = Streaming now,
         ctx = c\<lparr>messages := messages c @
                    [\<lparr>role = User,
                      content = ''[System: The previous response caused an error: '' @
                                [CHR 0x22] @ err @ [CHR 0x22] @
                                ''. Please try again with a simpler approach.]'',
                      tool_calls = None, tool_call_id = None, msg_name = None\<rparr>],
                  consecutiveErrors := consecutiveErrors c + 1,
                  currentResponse := \<lparr>resp_content = [], resp_reasoning = []\<rparr>\<rparr>,
         effects = [LogError err,
                    SaveMessage ''system'' (''Error: '' @ err) None None,
                    BroadcastMessage ''system'' (''Error: '' @ err) None None,
                    StartStream]\<rparr>) \<and>
   (\<not> consecutiveErrors c + 1 < 3 \<longrightarrow>
      transition now (Streaming sid) c (StreamError err) =
        \<lparr>state = Idle, ctx = c\<lparr>consecutiveErrors := 0\<rparr>,
         effects = [LogError err,
                    SaveMessage ''system'' (''Error: '' @ err) None None,
                    BroadcastMessage ''system'' (''Error: '' @ err) None None,
                    SaveMessage ''system''
                      (''Too many consecutive errors ('' @ show_nat (consecutiveErrors c + 1) @
                       ''). Pausing. Send a message to resume.'') None None,
                    BroadcastMessage ''system''
                      (''Too many consecutive errors ('' @ show_nat (consecutiveErrors c + 1) @
                       ''). Pausing. Send a message to resume.'') None None,
                    BroadcastFsmState ''idle'' (turnNumber c)]\<rparr>) \<and>
   consecutiveErrors (ctx (transition now (Streaming sid) c (StreamEnd msg usage))) = 0 \<and>
   (consecutiveErrors c = 0 \<longrightarrow>
      (let r1 = transition n1 (Streaming sid) c (StreamError e1);
           r2 = transition n2 (state r1) (ctx r1) (StreamError e2);
           r3 = transition n3 (state r2) (ctx r2) (StreamError e3)
       in state r1 = Streaming n1 \<and> consecutiveErrors (ctx r1) = 1 \<and>
          StartStream \<in> set (effects r1) \<and>
          state r2 = Streaming n2 \<and> consecutiveErrors (ctx r2) = 2 \<and>
          StartStream \<in> set (effects r2) \<and>
          messages (ctx r2) = messages c @
            [\<lparr>role = User,
              content = ''[System: The previous response caused an error: '' @
                        [CHR 0x22] @ e1 @ [CHR 0x22] @
                        ''. Please try again with a simpler approach.]'',
              tool_calls = None, tool_call_id = None, msg_name = None\<rparr>,
             \<lparr>role = User,
              content = ''[System: The previous response caused an error: '' @
                        [CHR 0x22] @ e2 @ [CHR 0x22] @
                        ''. Please try again with a simpler approach.]'',
              tool_calls = None, tool_call_id = None, msg_name = None\<rparr>] \<and>
          state r3 = Idle \<and> consecutiveErrors (ctx r3) = 0 \<and>
          messages (ctx r3) = messages (ctx r2) \<and>
          StartStream \<notin> set (effects r3) \<and>
          BroadcastMessage ''system''
            ''Too many consecutive errors (3). Pausing. Send a message to resume.'' None None
            \<in> set (effects r3)))"
proof (intro conjI impI)
  assume z: "consecutiveErrors c = 0"
  show "let r1 = transition n1 (Streaming sid) c (StreamError e1);
           r2 = transition n2 (state r1) (ctx r1) (StreamError e2);
           r3 = transition n3 (state r2) (ctx r2) (StreamError e3)
       in state r1 = Streaming n1 \<and> consecutiveErrors (ctx r1) = 1 \<and>
          StartStream \<in> set (effects r1) \<and>
          state r2 = Streaming n2 \<and> consecutiveErrors (ctx r2) = 2 \<and>
          StartStream \<in> set (effects r2) \<and>
          messages (ctx r2) = messages c @
            [\<lparr>role = User,
              content = ''[System: The previous response caused an error: '' @
                        [CHR 0x22] @ e1 @ [CHR 0x22] @
                        ''. Please try again with a simpler approach.]'',
              tool_calls = None, tool_call_id = None, msg_name = None\<rparr>,
             \<lparr>role = User,
              content = ''[System: The previous response caused an error: '' @
                        [CHR 0x22] @ e2 @ [CHR 0x22] @
                        ''. Please try again with a simpler approach.]'',
              tool_calls = None, tool_call_id = None, msg_name = None\<rparr>] \<and>
          state r3 = Idle \<and> consecutiveErrors (ctx r3) = 0 \<and>
          messages (ctx r3) = messages (ctx r2) \<and>
          StartStream \<notin> set (effects r3) \<and>
          BroadcastMessage ''system''
            ''Too many consecutive errors (3). Pausing. Send a message to resume.'' None None
            \<in> set (effects r3)"
    using z
    by (simp add: stream_error_step Let_def numeral_3_eq_3 [symmetric] pauseNotice_def show_nat_3
        recoveryPrompt_def mkMessage_def)
qed (simp_all add: stream_error_step stream_end_counter recoveryPrompt_def mkMessage_def
       emptyResponse_def pauseNotice_def)

theorem stream_error_retry_ladder_witness:
  "transition 7 (Streaming 1) (createContext []) (StreamError ''boom'') =
     \<lparr>state = Streaming 7,
      ctx = \<lparr>messages =
               [\<lparr>role = User,
                 content = ''[System: The previous response caused an error: '' @ [CHR 0x22] @
                           ''boom'' @ [CHR 0x22] @
                           ''. Please try again with a simpler approach.]'',
                 tool_calls = None, tool_call_id = None, msg_name = None\<rparr>],
             mode = Conversational, delay = Seconds 5, queuedUserMessages = [],
             consecutiveErrors = 1, turnNumber = 0,
             currentResponse = \<lparr>resp_content = [], resp_reasoning = []\<rparr>\<rparr>,
      effects = [LogError ''boom'',
                 SaveMessage ''system'' ''Error: boom'' None None,
                 BroadcastMessage ''system'' ''Error: boom'' None None,
                 StartStream]\<rparr> \<and>
   transition 9 (Streaming 1)
     \<lparr>messages = [], mode = Conversational, delay = Seconds 5, queuedUserMessages = [],
      consecutiveErrors = 2, turnNumber = 0,
      currentResponse = \<lparr>resp_content = [], resp_reasoning = []\<rparr>\<rparr> (StreamError ''boom'') =
     \<lparr>state = Idle,
      ctx = \<lparr>messages = [], mode = Conversational, delay = Seconds 5, queuedUserMessages = [],
             consecutiveErrors = 0, turnNumber = 0,
             currentResponse = \<lparr>resp_content = [], resp_reasoning = []\<rparr>\<rparr>,
      effects = [LogError ''boom'',
                 SaveMessage ''system'' ''Error: boom'' None None,
                 BroadcastMessage ''system'' ''Error: boom'' None None,
                 SaveMessage ''system''
                   ''Too many consecutive errors (3). Pausing. Send a message to resume.'' None None,
                 BroadcastMessage ''system''
                   ''Too many consecutive errors (3). Pausing. Send a message to resume.'' None None,
                 BroadcastFsmState ''idle'' 0]\<rparr> \<and>
   (let r1 = transition 1 (Streaming 0) (createContext []) (StreamError ''a'');
        r2 = transition 2 (state r1) (ctx r1) (StreamError ''b'');
        r3 = transition 3 (state r2) (ctx r2) (StreamError ''c'')
    in state r3 = Idle \<and> StartStream \<in> set (effects r1) \<and> StartStream \<in> set (effects r2) \<and>
       StartStream \<notin> set (effects r3) \<and>
       map content (messages (ctx r3)) =
         [''[System: The previous response caused an error: '' @ [CHR 0x22] @ ''a'' @
          [CHR 0x22] @ ''. Please try again with a simpler approach.]'',
          ''[System: The previous response caused an error: '' @ [CHR 0x22] @ ''b'' @
          [CHR 0x22] @ ''. Please try again with a simpler approach.]''])"
proof -
  let ?m = "\<lparr>role = Assistant, content = [], tool_calls = None, tool_call_id = None,
             msg_name = None\<rparr>"
  let ?c0 = "createContext []"
  let ?c2 = "\<lparr>messages = [], mode = Conversational, delay = Seconds 5, queuedUserMessages = [],
      consecutiveErrors = 2, turnNumber = 0,
      currentResponse = \<lparr>resp_content = [], resp_reasoning = []\<rparr>\<rparr>"
  have h0: "consecutiveErrors ?c0 + 1 < 3" "consecutiveErrors ?c0 = 0"
    by (simp_all add: createContext_def)
  have h2: "\<not> consecutiveErrors ?c2 + 1 < 3"
    by simp
  have a: "transition 7 (Streaming 1) ?c0 (StreamError ''boom'') =
        \<lparr>state = Streaming 7,
         ctx = ?c0\<lparr>messages := messages ?c0 @
                    [\<lparr>role = User,
                      content = ''[System: The previous response caused an error: '' @
                                [CHR 0x22] @ ''boom'' @ [CHR 0x22] @
                                ''. Please try again with a simpler approach.]'',
                      tool_calls = None, tool_call_id = None, msg_name = None\<rparr>],
                  consecutiveErrors := consecutiveErrors ?c0 + 1,
                  currentResponse := \<lparr>resp_content = [], resp_reasoning = []\<rparr>\<rparr>,
         effects = [LogError ''boom'',
                    SaveMessage ''system'' (''Error: '' @ ''boom'') None None,
                    BroadcastMessage ''system'' (''Error: '' @ ''boom'') None None,
                    StartStream]\<rparr>"
    using stream_error_retry_ladder [where c = ?c0 and now = 7 and sid = 1
        and err = "''boom''" and msg = ?m and usage = None and ?n1.0 = 1 and ?e1.0 = "''a''"
        and ?n2.0 = 2 and ?e2.0 = "''b''" and ?n3.0 = 3 and ?e3.0 = "''c''"] h0
    by blast
  have b: "transition 9 (Streaming 1) ?c2 (StreamError ''boom'') =
        \<lparr>state = Idle, ctx = ?c2\<lparr>consecutiveErrors := 0\<rparr>,
         effects = [LogError ''boom'',
                    SaveMessage ''system'' (''Error: '' @ ''boom'') None None,
                    BroadcastMessage ''system'' (''Error: '' @ ''boom'') None None,
                    SaveMessage ''system''
                      (''Too many consecutive errors ('' @ show_nat (consecutiveErrors ?c2 + 1) @
                       ''). Pausing. Send a message to resume.'') None None,
                    BroadcastMessage ''system''
                      (''Too many consecutive errors ('' @ show_nat (consecutiveErrors ?c2 + 1) @
                       ''). Pausing. Send a message to resume.'') None None,
                    BroadcastFsmState ''idle'' (turnNumber ?c2)]\<rparr>"
    using stream_error_retry_ladder [where c = ?c2 and now = 9 and sid = 1
        and err = "''boom''" and msg = ?m and usage = None and ?n1.0 = 1 and ?e1.0 = "''a''"
        and ?n2.0 = 2 and ?e2.0 = "''b''" and ?n3.0 = 3 and ?e3.0 = "''c''"] h2
    by blast
  have c: "let r1 = transition 1 (Streaming 0) ?c0 (StreamError ''a'');
        r2 = transition 2 (state r1) (ctx r1) (StreamError ''b'');
        r3 = transition 3 (state r2) (ctx r2) (StreamError ''c'')
    in state r3 = Idle \<and> StartStream \<in> set (effects r1) \<and> StartStream \<in> set (effects r2) \<and>
       StartStream \<notin> set (effects r3) \<and>
       messages (ctx r3) = messages ?c0 @
            [\<lparr>role = User,
              content = ''[System: The previous response caused an error: '' @
                        [CHR 0x22] @ ''a'' @ [CHR 0x22] @
                        ''. Please try again with a simpler approach.]'',
              tool_calls = None, tool_call_id = None, msg_name = None\<rparr>,
             \<lparr>role = User,
              content = ''[System: The previous response caused an error: '' @
                        [CHR 0x22] @ ''b'' @ [CHR 0x22] @
                        ''. Please try again with a simpler approach.]'',
              tool_calls = None, tool_call_id = None, msg_name = None\<rparr>]"
    using stream_error_retry_ladder [where c = ?c0 and now = 7 and sid = 0
        and err = "''boom''" and msg = ?m and usage = None and ?n1.0 = 1 and ?e1.0 = "''a''"
        and ?n2.0 = 2 and ?e2.0 = "''b''" and ?n3.0 = 3 and ?e3.0 = "''c''"] h0
    unfolding Let_def by metis
  have d: "consecutiveErrors ?c2 + 1 = 3" "turnNumber ?c2 = 0" "messages ?c0 = []"
    by (simp_all add: createContext_def)
  show ?thesis
    unfolding a b d using c by (simp add: createContext_def show_nat_3 Let_def)
qed

text \<open>
  C7 (post-turn routing). \<open>transitionToPostTurn\<close> decides in this order: a non-empty
  queue hands its head to \<open>transition\<close> in \<open>idle\<close> as a \<open>user_message\<close>, the rest
  staying queued; otherwise conversational mode returns to \<open>idle\<close> with the effects
  unchanged; otherwise an infinite delay adds \<open>wait_for_step\<close> and moves to
  \<open>waiting_step\<close>; otherwise a positive delay adds \<open>schedule_delay(delay * 1000)\<close> and
  moves to \<open>waiting_delay\<close>; otherwise the result is that of an \<open>autonomous_tick\<close> in
  \<open>idle\<close>. A \<open>stream_end\<close> whose message carries no tool calls is routed this way,
  from the context with the assistant message appended and the effects of the stream end.
\<close>

theorem post_turn_routing:
  "(queuedUserMessages c = q # rest \<longrightarrow>
      transitionToPostTurn now c effs =
        transition now Idle (c\<lparr>queuedUserMessages := rest\<rparr>) (UserMessage q)) \<and>
   (queuedUserMessages c = [] \<and> mode c = Conversational \<longrightarrow>
      transitionToPostTurn now c effs = \<lparr>state = Idle, ctx = c, effects = effs\<rparr>) \<and>
   (queuedUserMessages c = [] \<and> mode c \<noteq> Conversational \<and> delay c = Infinite \<longrightarrow>
      transitionToPostTurn now c effs =
        \<lparr>state = WaitingStep, ctx = c, effects = effs @ [WaitForStep]\<rparr>) \<and>
   (queuedUserMessages c = [] \<and> mode c \<noteq> Conversational \<and> delay c = Seconds n \<and> n > 0 \<longrightarrow>
      transitionToPostTurn now c effs =
        \<lparr>state = WaitingDelay (n * 1000), ctx = c,
         effects = effs @ [ScheduleDelay (n * 1000)]\<rparr>) \<and>
   (queuedUserMessages c = [] \<and> mode c \<noteq> Conversational \<and> delay c = Seconds n \<and> \<not> n > 0 \<longrightarrow>
      transitionToPostTurn now c effs = transition now Idle c AutonomousTick) \<and>
   (tool_calls msg = None \<or> tool_calls msg = Some [] \<longrightarrow>
      transition now (Streaming sid) c (StreamEnd msg usage) =
        (let r = transitionToPostTurn now
                (c\<lparr>messages := messages c @ [msg], consecutiveErrors := 0\<rparr>)
                ((if resp_reasoning (currentResponse c) \<noteq> []
                  then [SaveMessage ''reasoning'' (resp_reasoning (currentResponse c)) None None,
                        BroadcastMessage ''reasoning'' (resp_reasoning (currentResponse c)) None None]
                  else []) @
                 (if content msg \<noteq> []
                  then [SaveMessage ''assistant'' (content msg) None None,
                        BroadcastMessage ''assistant'' (content msg) None None]
                  else []) @
                 (case usage of Some u \<Rightarrow> [usagePressure u] | None \<Rightarrow> []))
         in if state_type (state r) \<noteq> ''streaming''
            then r\<lparr>effects := effects r @
                 [BroadcastFsmState (state_type (state r)) (turnNumber (ctx r))]\<rparr>
            else r))"
  by (simp add: post_turn_cases stream_end_no_tools)

theorem post_turn_routing_witness:
  "transitionToPostTurn 5 ((createContext [])\<lparr>queuedUserMessages := [''q'']\<rparr>) [StartStream] =
     transition 5 Idle (createContext []) (UserMessage ''q'') \<and>
   transitionToPostTurn 5 (createContext []) [CheckContextPressure] =
     \<lparr>state = Idle, ctx = createContext [], effects = [CheckContextPressure]\<rparr> \<and>
   transitionToPostTurn 5 ((createContext [])\<lparr>mode := Autonomous, delay := Infinite\<rparr>) [] =
     \<lparr>state = WaitingStep, ctx = (createContext [])\<lparr>mode := Autonomous, delay := Infinite\<rparr>,
      effects = [WaitForStep]\<rparr> \<and>
   transitionToPostTurn 5 ((createContext [])\<lparr>mode := Autonomous\<rparr>) [] =
     \<lparr>state = WaitingDelay 5000, ctx = (createContext [])\<lparr>mode := Autonomous\<rparr>,
      effects = [ScheduleDelay 5000]\<rparr> \<and>
   transitionToPostTurn 5 ((createContext [])\<lparr>mode := Autonomous, delay := Seconds 0\<rparr>) [] =
     transition 5 Idle ((createContext [])\<lparr>mode := Autonomous, delay := Seconds 0\<rparr>)
       AutonomousTick \<and>
   transition 5 (Streaming 1) (createContext []) (StreamEnd (mkMessage Assistant ''hello'') None) =
     \<lparr>state = Idle, ctx = createContext [mkMessage Assistant ''hello''],
      effects = [SaveMessage ''assistant'' ''hello'' None None,
                 BroadcastMessage ''assistant'' ''hello'' None None,
                 BroadcastFsmState ''idle'' 0]\<rparr>"
proof -
  let ?c0 = "createContext []"
  let ?m = "mkMessage Assistant ''hello''"
  have w1: "transitionToPostTurn 5 (?c0\<lparr>queuedUserMessages := [''q'']\<rparr>) [StartStream] =
     transition 5 Idle (?c0\<lparr>queuedUserMessages := [''q''], queuedUserMessages := []\<rparr>)
       (UserMessage ''q'')"
    using post_turn_routing [where now = 5 and sid = 1 and msg = ?m and usage = None
        and q = "''q''" and rest = "[]" and c = "?c0\<lparr>queuedUserMessages := [''q'']\<rparr>" and effs = "[StartStream]"
        and n = 5]
    by simp
  have w2: "transitionToPostTurn 5 ?c0 [CheckContextPressure] =
     \<lparr>state = Idle, ctx = ?c0, effects = [CheckContextPressure]\<rparr>"
    using post_turn_routing [where now = 5 and sid = 1 and msg = ?m and usage = None
        and q = "''q''" and rest = "[]" and c = ?c0 and effs = "[CheckContextPressure]" and n = 5]
    by (simp add: createContext_def)
  have w3: "transitionToPostTurn 5 (?c0\<lparr>mode := Autonomous, delay := Infinite\<rparr>) [] =
     \<lparr>state = WaitingStep, ctx = ?c0\<lparr>mode := Autonomous, delay := Infinite\<rparr>,
      effects = [WaitForStep]\<rparr>"
    using post_turn_routing [where now = 5 and sid = 1 and msg = ?m and usage = None
        and q = "''q''" and rest = "[]" and c = "?c0\<lparr>mode := Autonomous, delay := Infinite\<rparr>" and effs = "[]"
        and n = 5]
    by (simp add: createContext_def)
  have w4: "transitionToPostTurn 5 (?c0\<lparr>mode := Autonomous\<rparr>) [] =
     \<lparr>state = WaitingDelay 5000, ctx = ?c0\<lparr>mode := Autonomous\<rparr>,
      effects = [ScheduleDelay 5000]\<rparr>"
    using post_turn_routing [where now = 5 and sid = 1 and msg = ?m and usage = None
        and q = "''q''" and rest = "[]" and c = "?c0\<lparr>mode := Autonomous\<rparr>" and effs = "[]" and n = 5]
    by (simp add: createContext_def)
  have w5: "transitionToPostTurn 5 (?c0\<lparr>mode := Autonomous, delay := Seconds 0\<rparr>) [] =
     transition 5 Idle (?c0\<lparr>mode := Autonomous, delay := Seconds 0\<rparr>) AutonomousTick"
    using post_turn_routing [where now = 5 and sid = 1 and msg = ?m and usage = None
        and q = "''q''" and rest = "[]" and c = "?c0\<lparr>mode := Autonomous, delay := Seconds 0\<rparr>" and effs = "[]"
        and n = 0]
    by (simp add: createContext_def)
  have w6a: "transitionToPostTurn 5 (createContext [?m])
       [SaveMessage ''assistant'' ''hello'' None None,
        BroadcastMessage ''assistant'' ''hello'' None None] =
     \<lparr>state = Idle, ctx = createContext [?m],
      effects = [SaveMessage ''assistant'' ''hello'' None None,
                 BroadcastMessage ''assistant'' ''hello'' None None]\<rparr>"
    using post_turn_routing [where now = 5 and sid = 1 and msg = ?m and usage = None
        and q = "''q''" and rest = "[]" and c = "createContext [?m]" and n = 5 and
        effs = "[SaveMessage ''assistant'' ''hello'' None None,
                 BroadcastMessage ''assistant'' ''hello'' None None]"]
    by (simp add: createContext_def)
  have w6: "transition 5 (Streaming 1) ?c0 (StreamEnd ?m None) =
     \<lparr>state = Idle, ctx = createContext [?m],
      effects = [SaveMessage ''assistant'' ''hello'' None None,
                 BroadcastMessage ''assistant'' ''hello'' None None,
                 BroadcastFsmState ''idle'' 0]\<rparr>"
  proof -
    have e: "?c0\<lparr>messages := messages ?c0 @ [?m], consecutiveErrors := 0\<rparr> = createContext [?m]"
      by (simp add: createContext_def)
    have r: "resp_reasoning (currentResponse ?c0) = []" "content ?m = ''hello''"
      "tool_calls ?m = None"
      by (simp_all add: createContext_def emptyResponse_def mkMessage_def)
    show ?thesis
      using post_turn_routing [where now = 5 and sid = 1 and msg = ?m and usage = None
        and q = "''q''" and rest = "[]" and c = ?c0 and effs = "[]" and n = 5]
        w6a
      unfolding e r by (simp add: createContext_def Let_def)
  qed
  have q: "?c0\<lparr>queuedUserMessages := [''q''], queuedUserMessages := []\<rparr> = ?c0"
    by (simp add: createContext_def)
  show ?thesis
    using w1 w2 w3 w4 w5 w6 unfolding q by blast
qed

text \<open>
  C8 (user messages outside \<open>idle\<close>). As stated (every state other than \<open>idle\<close>
  appends the content to \<open>queuedUserMessages\<close>) the claim fails in the two waiting
  states: there the message interrupts the wait and is processed at once as an \<open>idle\<close>
  user message, and the queue is left as it was.

  What holds: in \<open>streaming\<close> and \<open>executing_tools\<close> the content is appended to the
  queue, the state is kept and no effect is emitted; in \<open>waiting_delay\<close> and
  \<open>waiting_step\<close> the message is processed immediately as an \<open>idle\<close> user message
  (it enters the window, not the queue). A queued message is consumed, head first, by
  post-turn routing, and by an \<open>autonomous_tick\<close> in \<open>idle\<close> when the mode is
  autonomous; in any other mode the tick leaves the queue untouched.
\<close>

theorem user_message_in_waiting_step_counterexample:
  "queuedUserMessages (ctx (transition 0 WaitingStep (createContext []) (UserMessage ''hi''))) \<noteq>
   queuedUserMessages (createContext []) @ [''hi'']"
  by (simp add: waiting_user_message idle_user_message createContext_def)

theorem user_message_while_busy:
  "(st = Streaming sid \<or> st = ExecutingTools tcs i \<longrightarrow>
      transition now st c (UserMessage q) =
        \<lparr>state = st, ctx = c\<lparr>queuedUserMessages := queuedUserMessages c @ [q]\<rparr>,
         effects = []\<rparr>) \<and>
   (st = WaitingDelay d \<or> st = WaitingStep \<longrightarrow>
      transition now st c (UserMessage q) =
        (let r = transition now Idle c (UserMessage q)
         in r\<lparr>effects := effects r @ [BroadcastFsmState ''streaming'' (turnNumber c + 1)]\<rparr>) \<and>
      state (transition now st c (UserMessage q)) = Streaming now \<and>
      messages (ctx (transition now st c (UserMessage q))) = messages c @ [mkMessage User q] \<and>
      queuedUserMessages (ctx (transition now st c (UserMessage q))) = queuedUserMessages c) \<and>
   (queuedUserMessages c = q # rest \<longrightarrow>
      transitionToPostTurn now c effs =
        transition now Idle (c\<lparr>queuedUserMessages := rest\<rparr>) (UserMessage q) \<and>
      messages (ctx (transitionToPostTurn now c effs)) = messages c @ [mkMessage User q] \<and>
      queuedUserMessages (ctx (transitionToPostTurn now c effs)) = rest) \<and>
   (queuedUserMessages c = q # rest \<and> mode c = Autonomous \<longrightarrow>
      state (transition now Idle c AutonomousTick) = Streaming now \<and>
      messages (ctx (transition now Idle c AutonomousTick)) = messages c @ [mkMessage User q] \<and>
      queuedUserMessages (ctx (transition now Idle c AutonomousTick)) = rest) \<and>
   (mode c \<noteq> Autonomous \<longrightarrow>
      transition now Idle c AutonomousTick = \<lparr>state = Idle, ctx = c, effects = []\<rparr>)"
  by (auto simp add: busy_user_message waiting_user_message idle_user_message
      idle_autonomous_tick post_turn_cases)

theorem user_message_while_busy_witness:
  "transition 3 (Streaming 1) (createContext []) (UserMessage ''hi'') =
     \<lparr>state = Streaming 1, ctx = (createContext [])\<lparr>queuedUserMessages := [''hi'']\<rparr>,
      effects = []\<rparr> \<and>
   state (transition 3 WaitingStep (createContext []) (UserMessage ''hi'')) = Streaming 3 \<and>
   queuedUserMessages (ctx (transition 3 WaitingStep (createContext []) (UserMessage ''hi''))) = [] \<and>
   queuedUserMessages (ctx (transitionToPostTurn 3
      ((createContext [])\<lparr>queuedUserMessages := [''hi'', ''there'']\<rparr>) [])) = [''there''] \<and>
   queuedUserMessages (ctx (transition 3 Idle
      ((createContext [])\<lparr>mode := Autonomous, queuedUserMessages := [''hi'', ''there'']\<rparr>)
      AutonomousTick)) = [''there''] \<and>
   transition 3 Idle ((createContext [])\<lparr>queuedUserMessages := [''hi'']\<rparr>) AutonomousTick =
     \<lparr>state = Idle, ctx = (createContext [])\<lparr>queuedUserMessages := [''hi'']\<rparr>, effects = []\<rparr>"
proof -
  let ?c0 = "createContext []"
  let ?c1 = "(createContext [])\<lparr>queuedUserMessages := [''hi'', ''there'']\<rparr>"
  let ?c2 = "(createContext [])\<lparr>mode := Autonomous, queuedUserMessages := [''hi'', ''there'']\<rparr>"
  let ?c3 = "(createContext [])\<lparr>queuedUserMessages := [''hi'']\<rparr>"
  have h1: "queuedUserMessages ?c1 = ''hi'' # [''there'']"
    by (simp add: createContext_def)
  have h2: "queuedUserMessages ?c2 = ''hi'' # [''there'']" "mode ?c2 = Autonomous"
    by (simp_all add: createContext_def)
  have h3: "mode ?c3 \<noteq> Autonomous"
    by (simp add: createContext_def)
  have w1: "transition 3 (Streaming 1) ?c0 (UserMessage ''hi'') =
     \<lparr>state = Streaming 1, ctx = ?c0\<lparr>queuedUserMessages := queuedUserMessages ?c0 @ [''hi'']\<rparr>,
      effects = []\<rparr>"
    using user_message_while_busy [where st = "Streaming 1" and sid = 1 and tcs = "[]" and i = 0
      and now = 3 and c = ?c0 and q = "''hi''" and d = 0 and rest = "[]" and effs = "[]"]
    by blast
  have w2: "state (transition 3 WaitingStep ?c0 (UserMessage ''hi'')) = Streaming 3 \<and>
     queuedUserMessages (ctx (transition 3 WaitingStep ?c0 (UserMessage ''hi''))) =
       queuedUserMessages ?c0"
    using user_message_while_busy [where st = WaitingStep and sid = 1 and tcs = "[]" and i = 0
      and now = 3 and c = ?c0 and q = "''hi''" and d = 0 and rest = "[]" and effs = "[]"]
    by blast
  have w3: "queuedUserMessages (ctx (transitionToPostTurn 3 ?c1 [])) = [''there'']"
    using user_message_while_busy [where st = WaitingStep and sid = 1 and tcs = "[]" and i = 0
      and now = 3 and c = ?c1 and q = "''hi''" and d = 0 and rest = "[''there'']" and effs = "[]"]
      h1
    by blast
  have w4: "queuedUserMessages (ctx (transition 3 Idle ?c2 AutonomousTick)) = [''there'']"
    using user_message_while_busy [where st = WaitingStep and sid = 1 and tcs = "[]" and i = 0
      and now = 3 and c = ?c2 and q = "''hi''" and d = 0 and rest = "[''there'']" and effs = "[]"]
      h2
    by blast
  have w5: "transition 3 Idle ?c3 AutonomousTick = \<lparr>state = Idle, ctx = ?c3, effects = []\<rparr>"
    using user_message_while_busy [where st = WaitingStep and sid = 1 and tcs = "[]" and i = 0
      and now = 3 and c = ?c3 and q = "''hi''" and d = 0 and rest = "[]" and effs = "[]"]
      h3
    by blast
  have e: "queuedUserMessages ?c0 = []"
    by (simp add: createContext_def)
  show ?thesis
    using w1 w2 w3 w4 w5 unfolding e by simp
qed

section \<open>Claims about the store\<close>

text \<open>
  C2 (terminal background tasks). As stated (a call on a terminal task is a no-op) the
  claim fails: the update statement has no condition on the current status. A task that
  was completed with result \<open>done\<close> at time 2 and is then failed with \<open>boom\<close> at time 3
  ends up failed, with no result, the error \<open>boom\<close> and completion time 3.
\<close>

theorem terminal_task_overwritten:
  "(case createBackgroundTask ''t1'' 1 ''terminal'' ''{}''
           \<lparr>db_messages = [], db_sessions = [], db_tasks = Map.empty\<rparr> of
      Inl e \<Rightarrow> None
    | Inr (tid, db) \<Rightarrow>
        getBackgroundTask tid
          (failBackgroundTask 3 tid ''boom'' (completeBackgroundTask 2 tid ''done'' db))) =
   Some \<lparr>t_id = ''t1'', t_tool_name = ''terminal'', t_input = ''{}'', t_status = Failed,
         t_result = None, t_error = Some ''boom'', t_created_at = 1,
         t_completed_at = Some 3\<rparr>"
  by (simp add: createBackgroundTask_def getBackgroundTask_def failBackgroundTask_def
      completeBackgroundTask_def updateBackgroundTask_def)

text \<open>
  C2 as amended. On an existing task \<open>completeBackgroundTask\<close> sets the status to
  completed, the result, a null error and the completion time, whatever the status was;
  \<open>failBackgroundTask\<close> sets failed, a null result, the error and the completion time. On
  an unknown id both leave the store as it is, and neither touches any other task. A task
  is created running, and no call makes a task that is not running become running again: a
  terminal task stays terminal, but the last call decides which terminal status and values
  it holds.
\<close>

theorem task_completion_overwrites:
  "(db_tasks db tid = Some task \<longrightarrow>
      getBackgroundTask tid (completeBackgroundTask now tid res db) =
        Some (task\<lparr>t_status := Completed, t_result := Some res, t_error := None,
                   t_completed_at := Some now\<rparr>) \<and>
      getBackgroundTask tid (failBackgroundTask now tid err db) =
        Some (task\<lparr>t_status := Failed, t_result := None, t_error := Some err,
                   t_completed_at := Some now\<rparr>)) \<and>
   (db_tasks db tid = None \<longrightarrow>
      completeBackgroundTask now tid res db = db \<and> failBackgroundTask now tid err db = db) \<and>
   (other \<noteq> tid \<longrightarrow>
      getBackgroundTask other (completeBackgroundTask now tid res db) = getBackgroundTask other db \<and>
      getBackgroundTask other (failBackgroundTask now tid err db) = getBackgroundTask other db) \<and>
   (db_tasks db uuid = None \<longrightarrow>
      (\<exists>db'. createBackgroundTask uuid now tool inp db = Inr (uuid, db') \<and>
             map_option t_status (getBackgroundTask uuid db') = Some Running)) \<and>
   (map_option t_status (getBackgroundTask other db) \<noteq> Some Running \<longrightarrow>
      map_option t_status (getBackgroundTask other (completeBackgroundTask now tid res db))
        \<noteq> Some Running \<and>
      map_option t_status (getBackgroundTask other (failBackgroundTask now tid err db))
        \<noteq> Some Running)"
  by (auto simp add: getBackgroundTask_def failBackgroundTask_def createBackgroundTask_def
      completeBackgroundTask_def updateBackgroundTask_def split: option.splits)


theorem task_completion_overwrites_witness:
  "getBackgroundTask ''t1''
     (failBackgroundTask 9 ''t1'' ''boom''
        \<lparr>db_messages = [], db_sessions = [],
         db_tasks = [''t1'' \<mapsto>
           \<lparr>t_id = ''t1'', t_tool_name = ''terminal'', t_input = ''{}'', t_status = Completed,
            t_result = Some ''done'', t_error = None, t_created_at = 1,
            t_completed_at = Some 2\<rparr>]\<rparr>) =
   Some \<lparr>t_id = ''t1'', t_tool_name = ''terminal'', t_input = ''{}'', t_status = Failed,
         t_result = None, t_error = Some ''boom'', t_created_at = 1,
         t_completed_at = Some 9\<rparr> \<and>
   completeBackgroundTask 9 ''t2'' ''late''
        \<lparr>db_messages = [], db_sessions = [],
         db_tasks = [''t1'' \<mapsto>
           \<lparr>t_id = ''t1'', t_tool_name = ''terminal'', t_input = ''{}'', t_status = Completed,
            t_result = Some ''done'', t_error = None, t_created_at = 1,
            t_completed_at = Some 2\<rparr>]\<rparr> =
        \<lparr>db_messages = [], db_sessions = [],
         db_tasks = [''t1'' \<mapsto>
           \<lparr>t_id = ''t1'', t_tool_name = ''terminal'', t_input = ''{}'', t_status = Completed,
            t_result = Some ''done'', t_error = None, t_created_at = 1,
            t_completed_at = Some 2\<rparr>]\<rparr> \<and>
   (\<exists>db'. createBackgroundTask ''t2'' 9 ''sleep'' ''{}''
        \<lparr>db_messages = [], db_sessions = [],
         db_tasks = [''t1'' \<mapsto>
           \<lparr>t_id = ''t1'', t_tool_name = ''terminal'', t_input = ''{}'', t_status = Completed,
            t_result = Some ''done'', t_error = None, t_created_at = 1,
            t_completed_at = Some 2\<rparr>]\<rparr> = Inr (''t2'', db') \<and>
      map_option t_status (getBackgroundTask ''t2'' db') = Some Running)"
proof -
  let ?task = "\<lparr>t_id = ''t1'', t_tool_name = ''terminal'', t_input = ''{}'',
      t_status = Completed, t_result = Some ''done'', t_error = None, t_created_at = 1,
      t_completed_at = Some 2\<rparr>"
  let ?db = "\<lparr>db_messages = [], db_sessions = [], db_tasks = [''t1'' \<mapsto> ?task]\<rparr>"
  have h1: "db_tasks ?db ''t1'' = Some ?task" by simp
  have h2: "db_tasks ?db ''t2'' = None" by simp
  have h3: "''t1'' \<noteq> ''t2''" by simp
  have h4: "map_option t_status (getBackgroundTask ''t1'' ?db) \<noteq> Some Running"
    by (simp add: getBackgroundTask_def)
  have w1: "getBackgroundTask ''t1'' (failBackgroundTask 9 ''t1'' ''boom'' ?db) =
      Some (?task\<lparr>t_status := Failed, t_result := None, t_error := Some ''boom'',
                   t_completed_at := Some 9\<rparr>)"
    using task_completion_overwrites [where db = ?db and tid = "''t1''" and task = ?task
        and now = 9 and res = "''late''" and err = "''boom''" and other = "''t2''"
        and uuid = "''t2''" and tool = "''sleep''" and inp = "''{}''"] h1
    by blast
  have w2: "completeBackgroundTask 9 ''t2'' ''late'' ?db = ?db"
    using task_completion_overwrites [where db = ?db and tid = "''t2''" and task = ?task
        and now = 9 and res = "''late''" and err = "''boom''" and other = "''t1''"
        and uuid = "''t2''" and tool = "''sleep''" and inp = "''{}''"] h2
    by blast
  have w3: "getBackgroundTask ''t1'' (completeBackgroundTask 9 ''t2'' ''late'' ?db) =
      getBackgroundTask ''t1'' ?db \<and>
      map_option t_status (getBackgroundTask ''t1'' (failBackgroundTask 9 ''t2'' ''boom'' ?db))
        \<noteq> Some Running"
    using task_completion_overwrites [where db = ?db and tid = "''t2''" and task = ?task
        and now = 9 and res = "''late''" and err = "''boom''" and other = "''t1''"
        and uuid = "''t2''" and tool = "''sleep''" and inp = "''{}''"] h3 h4
    by blast
  have w4: "\<exists>db'. createBackgroundTask ''t2'' 9 ''sleep'' ''{}'' ?db = Inr (''t2'', db') \<and>
      map_option t_status (getBackgroundTask ''t2'' db') = Some Running"
    using task_completion_overwrites [where db = ?db and tid = "''t2''" and task = ?task
        and now = 9 and res = "''late''" and err = "''boom''" and other = "''t1''"
        and uuid = "''t2''" and tool = "''sleep''" and inp = "''{}''"] h2
    by blast
  show ?thesis
    using w1 w2 w3 w4 by simp
qed

section \<open>Claims about context pressure and compaction\<close>

lemma usagePressure_fields:
  "usagePressure u =
     UpdateContextPressure (prompt_tokens u) 128000
       (of_nat (prompt_tokens u) / of_nat (128000 :: nat))
       (if (of_nat (prompt_tokens u) :: rat) / of_nat (128000 :: nat) \<ge> 9 / 10 then Hard
        else if (of_nat (prompt_tokens u) :: rat) / of_nat (128000 :: nat) \<ge> 7 / 10 then Soft
        else Normal)"
  by (simp add: usagePressure_def Let_def)

lemma stream_end_conversational:
  assumes "queuedUserMessages c = []" "mode c = Conversational"
  shows "usagePressure u \<in> set (effects (transition now (Streaming sid) c (StreamEnd msg (Some u))))"
  using assms
  by (simp add: transition.simps [of now "Streaming sid"] handleStreaming.simps Let_def
      post_turn_cases mkResult_def split: option.split list.split)

text \<open>
  C3 (pressure levels). As stated the claim covers the broadcast computed from the
  Model's prompt-token usage as well, and there it fails: that classification has three
  levels only. A usage of 140800 prompt tokens, a ratio of exactly 1.10, is broadcast as
  \<open>hard\<close>, not \<open>overflow\<close>.
\<close>

theorem usage_pressure_never_overflow:
  "UpdateContextPressure 140800 128000 (11 / 10) Hard \<in>
     set (effects (transition 0 (Streaming 0) (createContext [])
       (StreamEnd (mkMessage Assistant ''ok'')
          (Some \<lparr>prompt_tokens = 140800, completion_tokens = 0, total_tokens = 140800\<rparr>))))"
proof -
  have "usagePressure \<lparr>prompt_tokens = 140800, completion_tokens = 0, total_tokens = 140800\<rparr> =
        UpdateContextPressure 140800 128000 (11 / 10) Hard"
    by (simp add: usagePressure_def Let_def)
  moreover have "queuedUserMessages (createContext []) = []" "mode (createContext []) = Conversational"
    by (simp_all add: createContext_def)
  ultimately show ?thesis
    using stream_end_conversational [of "createContext []"] by metis
qed

text \<open>
  C3 as amended. For a positive context size the estimate-based classification
  \<open>getContextPressure\<close> reports the estimated tokens and the ratio
  \<open>r = tokens / contextSize\<close>, and its level is normal iff \<open>r < 0.70\<close>, soft iff
  \<open>0.70 \<le> r < 0.90\<close>, hard iff \<open>0.90 \<le> r < 1.10\<close> and overflow iff \<open>r \<ge> 1.10\<close>.
  The broadcast computed at \<open>stream_end\<close> from the prompt-token usage carries the usage,
  the maximum it was measured against and their ratio \<open>r'\<close>; its level is normal iff
  \<open>r' < 0.70\<close>, soft iff \<open>0.70 \<le> r' < 0.90\<close> and hard iff \<open>r' \<ge> 0.90\<close>, never
  overflow. With an empty queue in conversational mode that broadcast is among the effects
  of the \<open>stream_end\<close> transition.
\<close>

theorem pressure_levels:
  "(0 < contextSize \<longrightarrow>
      (let p = getContextPressure contextSize msgs;
           r = (of_nat (estimateTotalTokens msgs) :: rat) / of_nat contextSize
       in p_tokens p = estimateTotalTokens msgs \<and> p_ratio p = Finite r \<and>
          (p_level p = Normal \<longleftrightarrow> r < 7 / 10) \<and>
          (p_level p = Soft \<longleftrightarrow> 7 / 10 \<le> r \<and> r < 9 / 10) \<and>
          (p_level p = Hard \<longleftrightarrow> 9 / 10 \<le> r \<and> r < 11 / 10) \<and>
          (p_level p = Overflow \<longleftrightarrow> 11 / 10 \<le> r))) \<and>
   (usagePressure u = UpdateContextPressure t m r' l \<longrightarrow>
      t = prompt_tokens u \<and> r' = of_nat t / of_nat m \<and>
      (l = Normal \<longleftrightarrow> r' < 7 / 10) \<and>
      (l = Soft \<longleftrightarrow> 7 / 10 \<le> r' \<and> r' < 9 / 10) \<and>
      (l = Hard \<longleftrightarrow> 9 / 10 \<le> r') \<and>
      l \<noteq> Overflow) \<and>
   (queuedUserMessages c = [] \<and> mode c = Conversational \<longrightarrow>
      usagePressure u \<in>
        set (effects (transition now (Streaming sid) c (StreamEnd msg (Some u)))))"
proof (intro conjI impI)
  assume "0 < contextSize"
  then show "let p = getContextPressure contextSize msgs;
           r = (of_nat (estimateTotalTokens msgs) :: rat) / of_nat contextSize
       in p_tokens p = estimateTotalTokens msgs \<and> p_ratio p = Finite r \<and>
          (p_level p = Normal \<longleftrightarrow> r < 7 / 10) \<and>
          (p_level p = Soft \<longleftrightarrow> 7 / 10 \<le> r \<and> r < 9 / 10) \<and>
          (p_level p = Hard \<longleftrightarrow> 9 / 10 \<le> r \<and> r < 11 / 10) \<and>
          (p_level p = Overflow \<longleftrightarrow> 11 / 10 \<le> r)"
    by (simp add: getContextPressure_def js_div_def Let_def SOFT_LIMIT_RATIO_def
        HARD_LIMIT_RATIO_def OVERFLOW_LIMIT_RATIO_def)
next
  assume "queuedUserMessages c = [] \<and> mode c = Conversational"
  then show "usagePressure u \<in>
        set (effects (transition now (Streaming sid) c (StreamEnd msg (Some u))))"
    by (simp add: stream_end_conversational)
qed (auto simp add: usagePressure_fields split: if_splits)

lemma tokens_one_message:
  "estimateTotalTokens [mkMessage User (replicate n (CHR ''a''))] =
     nat \<lceil>(of_nat n :: rat) / 4\<rceil> + 4"
  by (simp add: estimateTotalTokens_def estimateMessageTokens_def estimateTokens_def mkMessage_def)

theorem pressure_levels_witness:
  "p_ratio (getContextPressure 100 [mkMessage User (replicate 264 (CHR ''a''))]) =
     Finite (7 / 10) \<and>
   p_level (getContextPressure 100 [mkMessage User (replicate 264 (CHR ''a''))]) = Soft \<and>
   p_level (getContextPressure 100 [mkMessage User (replicate 344 (CHR ''a''))]) = Hard \<and>
   p_level (getContextPressure 100 [mkMessage User (replicate 424 (CHR ''a''))]) = Overflow \<and>
   usagePressure \<lparr>prompt_tokens = 115200, completion_tokens = 0, total_tokens = 115200\<rparr> =
     UpdateContextPressure 115200 128000 (9 / 10) Hard \<and>
   usagePressure \<lparr>prompt_tokens = 115200, completion_tokens = 0, total_tokens = 115200\<rparr> \<in>
     set (effects (transition 1 (Streaming 0) (createContext [])
       (StreamEnd (mkMessage Assistant ''ok'')
          (Some \<lparr>prompt_tokens = 115200, completion_tokens = 0, total_tokens = 115200\<rparr>)))) \<and>
   (9 / 10 :: rat) = of_nat 115200 / of_nat 128000"
proof -
  let ?u = "\<lparr>prompt_tokens = 115200, completion_tokens = 0, total_tokens = 115200\<rparr>"
  let ?c = "createContext []"
  let ?m = "mkMessage Assistant ''ok''"
  let ?w70 = "[mkMessage User (replicate 264 (CHR ''a''))]"
  let ?w90 = "[mkMessage User (replicate 344 (CHR ''a''))]"
  let ?w110 = "[mkMessage User (replicate 424 (CHR ''a''))]"
  have pos: "0 < (100 :: nat)" by simp
  have hu: "usagePressure ?u = UpdateContextPressure 115200 128000 (9 / 10) Hard"
    by (simp add: usagePressure_def Let_def)
  have hc: "queuedUserMessages ?c = [] \<and> mode ?c = Conversational"
    by (simp add: createContext_def)
  have t70: "estimateTotalTokens ?w70 = 70" and t90: "estimateTotalTokens ?w90 = 90"
    and t110: "estimateTotalTokens ?w110 = 110"
    by (simp_all add: tokens_one_message)
  have w70: "p_ratio (getContextPressure 100 ?w70) = Finite (7 / 10) \<and>
             p_level (getContextPressure 100 ?w70) = Soft"
    using pressure_levels [where contextSize = 100 and msgs = ?w70 and u = ?u and t = 115200
        and m = 128000 and r' = "9 / 10" and l = Hard and c = ?c and now = 1 and sid = 0
        and msg = ?m] pos
    by (simp add: Let_def t70)
  have w90: "p_level (getContextPressure 100 ?w90) = Hard"
    using pressure_levels [where contextSize = 100 and msgs = ?w90 and u = ?u and t = 115200
        and m = 128000 and r' = "9 / 10" and l = Hard and c = ?c and now = 1 and sid = 0
        and msg = ?m] pos
    by (simp add: Let_def t90)
  have w110: "p_level (getContextPressure 100 ?w110) = Overflow"
    using pressure_levels [where contextSize = 100 and msgs = ?w110 and u = ?u and t = 115200
        and m = 128000 and r' = "9 / 10" and l = Hard and c = ?c and now = 1 and sid = 0
        and msg = ?m] pos
    by (simp add: Let_def t110)
  have wu: "usagePressure ?u \<in>
      set (effects (transition 1 (Streaming 0) ?c (StreamEnd ?m (Some ?u))))"
    using pressure_levels [where contextSize = 100 and msgs = ?w110 and u = ?u and t = 115200
        and m = 128000 and r' = "9 / 10" and l = Hard and c = ?c and now = 1 and sid = 0
        and msg = ?m] hc
    by blast
  have wl: "115200 = prompt_tokens ?u \<and> (9 / 10 :: rat) = of_nat 115200 / of_nat 128000 \<and>
      Hard \<noteq> Overflow"
    using pressure_levels [where contextSize = 100 and msgs = ?w110 and u = ?u and t = 115200
        and m = 128000 and r' = "9 / 10" and l = Hard and c = ?c and now = 1 and sid = 0
        and msg = ?m] hu
    by blast
  show ?thesis
    using w70 w90 w110 hu wu wl by blast
qed

lemma length_show_nat: "0 < k \<Longrightarrow> n < 10 ^ k \<Longrightarrow> length (show_nat n) \<le> k"
proof (induction k arbitrary: n)
  case 0
  then show ?case by simp
next
  case (Suc k)
  show ?case
  proof (cases "n < 10")
    case True
    then show ?thesis by (simp add: show_nat.simps [of n])
  next
    case False
    then have k: "0 < k" using Suc.prems by (cases k) auto
    have "n div 10 < 10 ^ k" using Suc.prems by simp
    then have "length (show_nat (n div 10)) \<le> k" using Suc.IH k by blast
    then show ?thesis using False by (simp add: show_nat.simps [of n])
  qed
qed

lemma length_show_nat_js: "n < 2 ^ 53 \<Longrightarrow> length (show_nat n) \<le> 16"
proof -
  assume "n < 2 ^ 53"
  then have "n < 10 ^ 16" by simp
  then show ?thesis using length_show_nat [of 16 n] by simp
qed

lemma summarizeMessage_role: "role (summarizeMessage m) = role m"
  by (simp add: summarizeMessage_def)

lemma summarizeMessage_short:
  "length (content m) < 2 ^ 53 \<Longrightarrow> role m = Tool \<Longrightarrow> length (content m) > 500 \<Longrightarrow>
   length (content (summarizeMessage m)) \<le> 500"
  using length_show_nat_js [of "length (content m)"]
  by (simp add: summarizeMessage_def)

lemma summarizeMessage_idem:
  assumes "length (content m) < 2 ^ 53"
  shows "summarizeMessage (summarizeMessage m) = summarizeMessage m"
proof (cases "role m = Tool \<and> length (content m) > 500")
  case True
  then have "length (content (summarizeMessage m)) \<le> 500"
    using assms summarizeMessage_short by blast
  then show ?thesis
    by (simp add: summarizeMessage_def [of "summarizeMessage m"])
next
  case False
  then show ?thesis by (auto simp add: summarizeMessage_def)
qed

lemma length_compactMessages: "length (compactMessages w) = length w"
  by (simp add: compactMessages_def)

lemma nth_compactMessages:
  "i < length w \<Longrightarrow>
   compactMessages w ! i = (if i < length w - 10 then summarizeMessage (w ! i) else w ! i)"
  by (auto simp add: compactMessages_def)

lemma compactMessages_idem:
  assumes "\<forall>m \<in> set w. length (content m) < 2 ^ 53"
  shows "compactMessages (compactMessages w) = compactMessages w"
proof (rule nth_equalityI)
  show "length (compactMessages (compactMessages w)) = length (compactMessages w)"
    by (simp add: length_compactMessages)
next
  fix i
  assume "i < length (compactMessages (compactMessages w))"
  then have i: "i < length w" by (simp add: length_compactMessages)
  then have "length (content (w ! i)) < 2 ^ 53" using assms by simp
  then show "compactMessages (compactMessages w) ! i = compactMessages w ! i"
    using i by (simp add: nth_compactMessages length_compactMessages summarizeMessage_idem)
qed

text \<open>
  C4 (soft compaction). A JavaScript string has fewer than \<open>2^53\<close> characters, which is
  the one assumption on the window. \<open>compactMessages\<close> applied twice gives the same list
  as applied once; it keeps the length, the role of every message and their order; the
  last 10 messages are unchanged; and each earlier message is rewritten to the
  \<open>[Summarized tool result: <first 200 chars>... (<N> chars total)]\<close> form exactly when
  its role is \<open>tool\<close> and its content is longer than 500 characters, and is otherwise
  passed through unchanged.
\<close>

theorem soft_compaction:
  assumes "\<forall>m \<in> set w. length (content m) < 2 ^ 53"
  shows "compactMessages (compactMessages w) = compactMessages w \<and>
         length (compactMessages w) = length w \<and>
         map role (compactMessages w) = map role w \<and>
         drop (length w - 10) (compactMessages w) = drop (length w - 10) w \<and>
         (\<forall>i < length w - 10.
            compactMessages w ! i =
              (if role (w ! i) = Tool \<and> length (content (w ! i)) > 500
               then (w ! i)\<lparr>content :=
                      ''[Summarized tool result: '' @ take 200 (content (w ! i)) @ ''... ('' @
                      show_nat (length (content (w ! i))) @ '' chars total)]''\<rparr>
               else w ! i))"
proof (intro conjI allI impI)
  show "compactMessages (compactMessages w) = compactMessages w"
    using assms by (rule compactMessages_idem)
  show "length (compactMessages w) = length w"
    by (rule length_compactMessages)
  show "map role (compactMessages w) = map role w"
    by (rule nth_equalityI)
       (simp_all add: length_compactMessages nth_compactMessages summarizeMessage_role)
  show "drop (length w - 10) (compactMessages w) = drop (length w - 10) w"
    by (rule nth_equalityI) (simp_all add: length_compactMessages nth_compactMessages)
next
  fix i
  assume "i < length w - 10"
  then show "compactMessages w ! i =
              (if role (w ! i) = Tool \<and> length (content (w ! i)) > 500
               then (w ! i)\<lparr>content :=
                      ''[Summarized tool result: '' @ take 200 (content (w ! i)) @ ''... ('' @
                      show_nat (length (content (w ! i))) @ '' chars total)]''\<rparr>
               else w ! i)"
    by (simp add: nth_compactMessages summarizeMessage_def)
qed


lemma show_nat_501: "show_nat 501 = ''501''"
  by (simp add: show_nat.simps digit_char_def)

theorem soft_compaction_witness:
  "compactMessages (compactMessages (replicate 11
      \<lparr>role = Tool, content = replicate 501 (CHR ''x''), tool_calls = None,
       tool_call_id = Some ''c1'', msg_name = None\<rparr>)) =
   compactMessages (replicate 11
      \<lparr>role = Tool, content = replicate 501 (CHR ''x''), tool_calls = None,
       tool_call_id = Some ''c1'', msg_name = None\<rparr>) \<and>
   length (compactMessages (replicate 11
      \<lparr>role = Tool, content = replicate 501 (CHR ''x''), tool_calls = None,
       tool_call_id = Some ''c1'', msg_name = None\<rparr>)) = 11 \<and>
   compactMessages (replicate 11
      \<lparr>role = Tool, content = replicate 501 (CHR ''x''), tool_calls = None,
       tool_call_id = Some ''c1'', msg_name = None\<rparr>) ! 0 =
     \<lparr>role = Tool,
      content = ''[Summarized tool result: '' @ replicate 200 (CHR ''x'') @
                ''... (501 chars total)]'',
      tool_calls = None, tool_call_id = Some ''c1'', msg_name = None\<rparr> \<and>
   drop 1 (compactMessages (replicate 11
      \<lparr>role = Tool, content = replicate 501 (CHR ''x''), tool_calls = None,
       tool_call_id = Some ''c1'', msg_name = None\<rparr>)) =
     replicate 10
      \<lparr>role = Tool, content = replicate 501 (CHR ''x''), tool_calls = None,
       tool_call_id = Some ''c1'', msg_name = None\<rparr>"
proof -
  let ?m = "\<lparr>role = Tool, content = replicate 501 (CHR ''x''), tool_calls = None,
       tool_call_id = Some ''c1'', msg_name = None\<rparr>"
  let ?w = "replicate 11 ?m"
  have h: "\<forall>m \<in> set ?w. length (content m) < 2 ^ 53"
    by simp
  have i: "0 < length ?w - 10" "length ?w - 10 = 1" "length ?w = 11" "?w ! 0 = ?m"
    by simp_all
  have t: "take 200 (replicate 501 (CHR ''x'')) = replicate 200 (CHR ''x'')"
    by simp
  note r = soft_compaction [OF h]
  have a: "compactMessages (compactMessages ?w) = compactMessages ?w"
    using r by blast
  have b: "length (compactMessages ?w) = 11"
    using r i(3) by simp
  have c: "compactMessages ?w ! 0 =
     \<lparr>role = Tool,
      content = ''[Summarized tool result: '' @ replicate 200 (CHR ''x'') @
                ''... (501 chars total)]'',
      tool_calls = None, tool_call_id = Some ''c1'', msg_name = None\<rparr>"
  proof -
    have "compactMessages ?w ! 0 =
        (if role (?w ! 0) = Tool \<and> length (content (?w ! 0)) > 500
         then (?w ! 0)\<lparr>content :=
                ''[Summarized tool result: '' @ take 200 (content (?w ! 0)) @ ''... ('' @
                show_nat (length (content (?w ! 0))) @ '' chars total)]''\<rparr>
         else ?w ! 0)"
      using r i(1) by blast
    then show ?thesis
      unfolding i(4) by (simp add: show_nat_501)
  qed
  have d: "drop 1 (compactMessages ?w) = replicate 10 ?m"
  proof -
    have "drop (length ?w - 10) (compactMessages ?w) = drop (length ?w - 10) ?w"
      using r by blast
    then show ?thesis
      unfolding i(2) by simp
  qed
  show ?thesis
    using a b c d by blast
qed

section \<open>Claims about the executor's handling of context pressure\<close>

text \<open>
  What the check does at the two upper levels. At \<open>hard\<close> it persists and broadcasts the
  warning, appends it to the window and registers \<open>performCompaction\<close> with a delay of
  5000 ms. At \<open>overflow\<close> it broadcasts the pressure and does nothing else.
\<close>

lemma check_pressure_hard:
  assumes "p_level (getContextPressure contextSize (messages (ex_context ex))) = Hard"
  shows "checkAndHandleContextPressure contextSize now ex =
     (let pressure = getContextPressure contextSize (messages (ex_context ex));
          warningMsg = fst (addMessage now ''system'' warningContent None None (ex_store ex))
      in ex\<lparr>ex_store := snd (addMessage now ''system'' warningContent None None (ex_store ex)),
             ex_outbox := ex_outbox ex @
               [BroadcastContextPressure (p_tokens pressure) contextSize (p_ratio pressure) Hard,
                BroadcastMsg warningMsg],
             ex_context := (ex_context ex)\<lparr>messages :=
                messages (ex_context ex) @ [mkMessage System warningContent]\<rparr>,
             ex_timers := ex_timers ex @ [(5000, PerformCompaction)]\<rparr>)"
  using assms
  by (simp add: checkAndHandleContextPressure_def Let_def split: prod.split)

lemma check_pressure_overflow:
  assumes "p_level (getContextPressure contextSize (messages (ex_context ex))) = Overflow"
  shows "checkAndHandleContextPressure contextSize now ex =
     (let pressure = getContextPressure contextSize (messages (ex_context ex))
      in ex\<lparr>ex_outbox := ex_outbox ex @
               [BroadcastContextPressure (p_tokens pressure) contextSize (p_ratio pressure)
                  Overflow]\<rparr>)"
  using assms
  by (simp add: checkAndHandleContextPressure_def Let_def)

lemma performCompaction_window:
  "messages (ex_context (performCompaction systemPrompt tEnd tStart tMsg ex)) =
     [mkMessage System systemPrompt,
      mkMessage System (formatSessionHandoff (createHandoffSummary (messages (ex_context ex))))]"
  by (simp add: performCompaction_def Let_def split: prod.split)

text \<open>
  C5 (hard compaction). The claim asks for the warning and the handoff on every window
  whose estimated tokens exceed \<open>0.9 * context_size\<close>. The check acts on the level
  \<open>hard\<close> only, which ends at a ratio of 1.10; from there on the level is \<open>overflow\<close>
  and neither branch is taken. With a context size of 100, a window estimated at 110
  tokens is checked: the pressure is broadcast as \<open>overflow\<close>, and the window, the log,
  the sessions and the timers are exactly as before, so no warning is appended and no
  compaction is scheduled.
\<close>

theorem overflow_window_not_compacted:
  "checkAndHandleContextPressure 100 7
     \<lparr>ex_context = createContext [mkMessage System (replicate 200 (CHR ''p'')),
                                   mkMessage User (replicate 208 (CHR ''a''))],
      ex_store = \<lparr>db_messages = [],
                  db_sessions = [\<lparr>s_id = 1, s_started_at = 0, s_handoff_summary = None,
                                  s_ended_at = None\<rparr>],
                  db_tasks = Map.empty\<rparr>,
      ex_outbox = [], ex_timers = []\<rparr> =
     \<lparr>ex_context = createContext [mkMessage System (replicate 200 (CHR ''p'')),
                                   mkMessage User (replicate 208 (CHR ''a''))],
      ex_store = \<lparr>db_messages = [],
                  db_sessions = [\<lparr>s_id = 1, s_started_at = 0, s_handoff_summary = None,
                                  s_ended_at = None\<rparr>],
                  db_tasks = Map.empty\<rparr>,
      ex_outbox = [BroadcastContextPressure 110 100 (Finite (11 / 10)) Overflow],
      ex_timers = []\<rparr>"
proof -
  have t: "estimateTotalTokens [mkMessage System (replicate 200 (CHR ''p'')),
                                mkMessage User (replicate 208 (CHR ''a''))] = 110"
    by (simp add: estimateTotalTokens_def estimateMessageTokens_def estimateTokens_def
        mkMessage_def)
  have p: "getContextPressure 100 [mkMessage System (replicate 200 (CHR ''p'')),
                                   mkMessage User (replicate 208 (CHR ''a''))] =
           \<lparr>p_tokens = 110, p_ratio = Finite (11 / 10), p_level = Overflow\<rparr>"
    by (simp add: getContextPressure_def t js_div_def Let_def OVERFLOW_LIMIT_RATIO_def)
  show ?thesis
    by (simp add: checkAndHandleContextPressure_def createContext_def p Let_def)
qed

section \<open>Claims about external injection\<close>

lemma truthy_Some: "truthy so \<longleftrightarrow> (\<exists>s. so = Some s \<and> s \<noteq> [])"
  by (cases so) auto

text \<open>
  C9 (injection contract). As stated (accepted exactly when the source matches
  \<open>^external:[^\s]+$\<close>) the claim fails: the handler checks the prefix only. The source
  \<open>external:\<close>, with nothing after the colon, does not match the pattern, and the
  request is accepted, appended to the log and broadcast.
\<close>

theorem inject_accepts_bare_prefix:
  "\<not> matches_external_pattern ''external:'' \<and>
   handleInject 5 (Some \<lparr>req_source = Some ''external:'', req_content = Some ''tick''\<rparr>)
     \<lparr>db_messages = [], db_sessions = [], db_tasks = Map.empty\<rparr> [] =
   (JsonSuccess \<lparr>m_id = 1, m_source = ''external:'', m_content = ''tick'', m_tool_name = None,
                 m_tool_input = None, m_timestamp = 5, m_metadata = None\<rparr>,
    \<lparr>db_messages = [\<lparr>m_id = 1, m_source = ''external:'', m_content = ''tick'',
                      m_tool_name = None, m_tool_input = None, m_timestamp = 5,
                      m_metadata = None\<rparr>],
     db_sessions = [], db_tasks = Map.empty\<rparr>,
    [BroadcastMsg \<lparr>m_id = 1, m_source = ''external:'', m_content = ''tick'',
                   m_tool_name = None, m_tool_input = None, m_timestamp = 5,
                   m_metadata = None\<rparr>])"
  by (simp add: matches_external_pattern_def handleInject_def startsWith_def addMessage_def
      next_rowid_def Let_def)

text \<open>
  C9 as amended. A parsed request is accepted exactly when source and content are both
  present and non-empty and the source starts with \<open>external:\<close>; the message is then
  appended to the log with that source and content and broadcast. Every other request,
  in particular every one whose source does not start with \<open>external:\<close>, and a body
  that is not JSON, gets a 400 error response, and the log and the broadcasts are left
  unchanged. Every source that matches the pattern is non-empty and has the prefix, so
  with a non-empty content it is accepted.
\<close>

theorem inject_contract:
  "(so = Some src \<and> co = Some body \<and> src \<noteq> [] \<and> body \<noteq> [] \<and> startsWith src ''external:'' \<longrightarrow>
      handleInject now (Some \<lparr>req_source = so, req_content = co\<rparr>) db out =
        (let message = \<lparr>m_id = next_rowid (map m_id (db_messages db)), m_source = src,
                         m_content = body, m_tool_name = None, m_tool_input = None,
                         m_timestamp = now, m_metadata = None\<rparr>
         in (JsonSuccess message, db\<lparr>db_messages := db_messages db @ [message]\<rparr>,
             out @ [BroadcastMsg message]))) \<and>
   (\<not> (\<exists>s b. so = Some s \<and> co = Some b \<and> s \<noteq> [] \<and> b \<noteq> [] \<and> startsWith s ''external:'') \<longrightarrow>
      (\<exists>e. handleInject now (Some \<lparr>req_source = so, req_content = co\<rparr>) db out =
             (JsonError 400 e, db, out))) \<and>
   (so = Some src \<and> \<not> startsWith src ''external:'' \<longrightarrow>
      (\<exists>e. handleInject now (Some \<lparr>req_source = so, req_content = co\<rparr>) db out =
             (JsonError 400 e, db, out))) \<and>
   handleInject now None db out = (JsonError 400 ''Invalid JSON body'', db, out) \<and>
   (matches_external_pattern src \<longrightarrow> src \<noteq> [] \<and> startsWith src ''external:'')"
proof (intro conjI impI)
  assume a: "so = Some src \<and> co = Some body \<and> src \<noteq> [] \<and> body \<noteq> [] \<and>
             startsWith src ''external:''"
  then show "handleInject now (Some \<lparr>req_source = so, req_content = co\<rparr>) db out =
        (let message = \<lparr>m_id = next_rowid (map m_id (db_messages db)), m_source = src,
                         m_content = body, m_tool_name = None, m_tool_input = None,
                         m_timestamp = now, m_metadata = None\<rparr>
         in (JsonSuccess message, db\<lparr>db_messages := db_messages db @ [message]\<rparr>,
             out @ [BroadcastMsg message]))"
    by (simp add: handleInject_def addMessage_def Let_def)
next
  assume "\<not> (\<exists>s b. so = Some s \<and> co = Some b \<and> s \<noteq> [] \<and> b \<noteq> [] \<and>
                startsWith s ''external:'')"
  then show "\<exists>e. handleInject now (Some \<lparr>req_source = so, req_content = co\<rparr>) db out =
             (JsonError 400 e, db, out)"
    by (auto simp add: handleInject_def Let_def truthy_Some)
next
  assume "so = Some src \<and> \<not> startsWith src ''external:''"
  then show "\<exists>e. handleInject now (Some \<lparr>req_source = so, req_content = co\<rparr>) db out =
             (JsonError 400 e, db, out)"
    by (auto simp add: handleInject_def Let_def)
next
  show "handleInject now None db out = (JsonError 400 ''Invalid JSON body'', db, out)"
    by (simp add: handleInject_def)
next
  assume m: "matches_external_pattern src"
  then show "src \<noteq> []" by (auto simp add: matches_external_pattern_def)
  from m show "startsWith src ''external:''" by (simp add: matches_external_pattern_def)
qed

theorem inject_contract_witness:
  "handleInject 5 (Some \<lparr>req_source = Some ''external:cron'', req_content = Some ''tick''\<rparr>)
     \<lparr>db_messages = [], db_sessions = [], db_tasks = Map.empty\<rparr> [] =
   (JsonSuccess \<lparr>m_id = 1, m_source = ''external:cron'', m_content = ''tick'',
                 m_tool_name = None, m_tool_input = None, m_timestamp = 5, m_metadata = None\<rparr>,
    \<lparr>db_messages = [\<lparr>m_id = 1, m_source = ''external:cron'', m_content = ''tick'',
                      m_tool_name = None, m_tool_input = None, m_timestamp = 5,
                      m_metadata = None\<rparr>],
     db_sessions = [], db_tasks = Map.empty\<rparr>,
    [BroadcastMsg \<lparr>m_id = 1, m_source = ''external:cron'', m_content = ''tick'',
                   m_tool_name = None, m_tool_input = None, m_timestamp = 5,
                   m_metadata = None\<rparr>]) \<and>
   (\<exists>e. handleInject 5 (Some \<lparr>req_source = Some ''user'', req_content = Some ''tick''\<rparr>)
          \<lparr>db_messages = [], db_sessions = [], db_tasks = Map.empty\<rparr> [] =
        (JsonError 400 e, \<lparr>db_messages = [], db_sessions = [], db_tasks = Map.empty\<rparr>, [])) \<and>
   (\<exists>e. handleInject 5 (Some \<lparr>req_source = Some ''external:cron'', req_content = None\<rparr>)
          \<lparr>db_messages = [], db_sessions = [], db_tasks = Map.empty\<rparr> [] =
        (JsonError 400 e, \<lparr>db_messages = [], db_sessions = [], db_tasks = Map.empty\<rparr>, [])) \<and>
   startsWith ''external:cron'' ''external:''"
proof -
  let ?db = "\<lparr>db_messages = [], db_sessions = [], db_tasks = Map.empty\<rparr>"
  have h1: "Some ''external:cron'' = Some ''external:cron'' \<and> Some ''tick'' = Some ''tick'' \<and>
            ''external:cron'' \<noteq> [] \<and> ''tick'' \<noteq> [] \<and> startsWith ''external:cron'' ''external:''"
    by (simp add: startsWith_def)
  have h2: "Some ''user'' = Some ''user'' \<and> \<not> startsWith ''user'' ''external:''"
    by (simp add: startsWith_def)
  have h3: "\<not> (\<exists>s b. Some ''external:cron'' = Some s \<and> (None :: string option) = Some b \<and>
                 s \<noteq> [] \<and> b \<noteq> [] \<and> startsWith s ''external:'')"
    by simp
  have h4: "matches_external_pattern ''external:cron''"
    by (simp add: matches_external_pattern_def startsWith_def is_whitespace_def)
  have w1: "handleInject 5 (Some \<lparr>req_source = Some ''external:cron'',
                                   req_content = Some ''tick''\<rparr>) ?db [] =
        (let message = \<lparr>m_id = next_rowid (map m_id (db_messages ?db)),
                         m_source = ''external:cron'',
                         m_content = ''tick'', m_tool_name = None, m_tool_input = None,
                         m_timestamp = 5, m_metadata = None\<rparr>
         in (JsonSuccess message, ?db\<lparr>db_messages := db_messages ?db @ [message]\<rparr>,
             [] @ [BroadcastMsg message]))"
    using inject_contract [where so = "Some ''external:cron''" and co = "Some ''tick''"
        and src = "''external:cron''" and body = "''tick''" and now = 5 and db = ?db
        and out = "[]"] h1
    by blast
  have w2: "\<exists>e. handleInject 5 (Some \<lparr>req_source = Some ''user'', req_content = Some ''tick''\<rparr>)
              ?db [] = (JsonError 400 e, ?db, [])"
    using inject_contract [where so = "Some ''user''" and co = "Some ''tick''"
        and src = "''user''" and body = "''tick''" and now = 5 and db = ?db
        and out = "[]"] h2
    by blast
  have w3: "\<exists>e. handleInject 5 (Some \<lparr>req_source = Some ''external:cron'', req_content = None\<rparr>)
              ?db [] = (JsonError 400 e, ?db, [])"
    using inject_contract [where so = "Some ''external:cron''" and co = None
        and src = "''external:cron''" and body = "''tick''" and now = 5 and db = ?db
        and out = "[]"] h3
    by blast
  have w4: "startsWith ''external:cron'' ''external:''"
    using inject_contract [where so = "Some ''external:cron''" and co = None
        and src = "''external:cron''" and body = "''tick''" and now = 5 and db = ?db
        and out = "[]"] h4
    by blast
  have n: "next_rowid (map m_id (db_messages ?db)) = 1"
    by (simp add: next_rowid_def)
  show ?thesis
    using w1 w2 w3 w4 unfolding n by (simp add: Let_def)
qed

section \<open>Claims about the sleep tool\<close>

lemma js_min_finite: "js_min (Num a) (Num b) = Num (min a b)"
  by (simp add: js_min_def min_def)

lemma advance_finite:
  "clock_advance (js_min (Num 100) (js_minus (Num t) e)) = max 1 \<lfloor>min 100 (t - of_int e)\<rfloor>"
  by (simp add: js_min_finite)


















end
